theory Spec2Isabelle
  imports Complex_Main
begin

unbundle bit_operations_syntax

section \<open>Values of the JavaScript runtime\<close>

text \<open>
  The webhook monitor: the controller authenticates a notification with
  \<open>verifyAlchemySignature\<close> and hands its body to \<open>tokenService.handleWebhook\<close>, which
  validates it and records transfers in a map keyed by transaction hash. The repository
  holds the service, the controller and the signature function in more than one variant;
  every definition below names the variant it follows.

  A JavaScript string is modelled by the bytes of its UTF-8 encoding, one \<^typ>\<open>char\<close> per
  byte; a \<open>Buffer\<close> is a list of bytes as well. A \<open>number\<close> is a real (the rounding of
  IEEE doubles is not modelled); \<open>NaN\<close> and \<open>undefined\<close> are \<open>None\<close> of an option
  type wherever the code can produce them. Functions of the runtime that the code calls
  and that are not modelled are parameters of the definitions: \<open>toLowerCase\<close>
  (\<open>String.prototype.toLowerCase\<close>, which folds case over all of Unicode), \<open>dateGetTime\<close>
  (\<open>new Date(s).getTime()\<close>) and \<open>hmac\<close> (HMAC-SHA256 of Node's \<open>crypto\<close>). A call of the
  logger has no effect on the results; the arguments it is given are evaluated first,
  and where reading one of them can throw, the definitions say so.
\<close>

type_synonym bytes = "char list"

text \<open>
  An exception: \<open>new Error(message)\<close> thrown by the code itself, or the \<open>TypeError\<close> the runtime
  raises when a property of \<open>undefined\<close> is read or \<open>undefined\<close> is called.
\<close>

datatype error = Error string | TypeError

text \<open>\<open>xs[i]\<close>: \<open>undefined\<close> out of range.\<close>

fun index :: "'a list \<Rightarrow> nat \<Rightarrow> 'a option" where
  "index [] i = None"
| "index (x # xs) 0 = Some x"
| "index (x # xs) (Suc i) = index xs i"

text \<open>\<open>Array.prototype.findIndex\<close>: the first position that satisfies the predicate; \<open>None\<close> is \<open>-1\<close>.\<close>

fun findIndex :: "('a \<Rightarrow> bool) \<Rightarrow> 'a list \<Rightarrow> nat option" where
  "findIndex P [] = None"
| "findIndex P (x # xs) = (if P x then Some 0 else map_option Suc (findIndex P xs))"

section \<open>Transfer records and the store (src/types/index.ts, TokenService.transfers)\<close>

text \<open>
  \<open>interface TokenTransfer\<close>; its fields \<open>from\<close> and \<open>to\<close> are \<open>from_addr\<close> and \<open>to_addr\<close> here.
  The field \<open>from\<close> is declared a string, but the address-activity service reads it from
  an array of an untyped (\<open>any\<close>) transaction, so that \<open>undefined\<close> (\<open>None\<close>) can be stored
  there.
\<close>

record TokenTransfer =
  amount :: real
  tokenAddress :: string
  from_addr :: "string option"
  to_addr :: string
  timestamp :: int
  transactionHash :: string

text \<open>\<open>private transfers: Map<string, TokenTransfer>\<close>, created empty by the constructor.\<close>

type_synonym transfers = "string \<rightharpoonup> TokenTransfer"

definition new_transfers :: transfers where
  "new_transfers = Map.empty"

text \<open>The statement \<open>this.transfers.set(transfer.transactionHash, transfer)\<close> of both services.\<close>

definition upsert :: "transfers \<Rightarrow> TokenTransfer \<Rightarrow> transfers" where
  "upsert st transfer = st(transactionHash transfer \<mapsto> transfer)"

text \<open>
  \<open>getTransferByHash\<close>: the argument is a string here, so the \<open>typeof\<close> guard never throws;
  the result is \<open>this.transfers.get(txHash)\<close>, \<open>undefined\<close> when the key is absent.
\<close>

definition getTransferByHash :: "transfers \<Rightarrow> string \<Rightarrow> TokenTransfer option" where
  "getTransferByHash st txHash = st txHash"

section \<open>Signature verification (src/utils/signatureVerification.ts)\<close>

text \<open>
  \<open>Buffer.prototype.toString('utf8')\<close>, as the controller applies it to the raw body. Node
  decodes UTF-8 with replacement: a well-formed sequence is kept, and every maximal
  ill-formed part becomes U+FFFD. On the UTF-8 representation of strings used here the
  well-formed sequences are copied and U+FFFD is the three bytes EF BF BD.
  \<open>contBytes k lo hi bs\<close> counts how many of the \<open>k\<close> continuation bytes that a lead byte
  asks for are present at the front of \<open>bs\<close>; only the first one has the narrowed range
  \<open>lo..hi\<close>.
\<close>

definition replacementCharacter :: string where
  "replacementCharacter = [CHR 0xEF, CHR 0xBF, CHR 0xBD]"

fun contBytes :: "nat \<Rightarrow> nat \<Rightarrow> nat \<Rightarrow> bytes \<Rightarrow> nat" where
  "contBytes 0 lo hi bs = 0"
| "contBytes (Suc k) lo hi [] = 0"
| "contBytes (Suc k) lo hi (c # cs) =
     (if lo \<le> (of_char c :: nat) \<and> (of_char c :: nat) \<le> hi
      then Suc (contBytes k 0x80 0xBF cs) else 0)"

text \<open>The number of continuation bytes of a lead byte and the range of the first of them.\<close>

definition leadByte :: "nat \<Rightarrow> (nat \<times> nat \<times> nat) option" where
  "leadByte n =
     (if 0xC2 \<le> n \<and> n \<le> 0xDF then Some (1, 0x80, 0xBF)
      else if n = 0xE0 then Some (2, 0xA0, 0xBF)
      else if n = 0xED then Some (2, 0x80, 0x9F)
      else if 0xE1 \<le> n \<and> n \<le> 0xEF then Some (2, 0x80, 0xBF)
      else if n = 0xF0 then Some (3, 0x90, 0xBF)
      else if n = 0xF4 then Some (3, 0x80, 0x8F)
      else if 0xF1 \<le> n \<and> n \<le> 0xF3 then Some (3, 0x80, 0xBF)
      else None)"

function toStringUtf8 :: "bytes \<Rightarrow> string" where
  "toStringUtf8 [] = []"
| "toStringUtf8 (b # bs) =
     (if (of_char b :: nat) < 0x80 then b # toStringUtf8 bs
      else (case leadByte (of_char b) of
              None \<Rightarrow> replacementCharacter @ toStringUtf8 bs
            | Some (k, lo, hi) \<Rightarrow>
                (if contBytes k lo hi bs = k
                 then (b # take k bs) @ toStringUtf8 (drop k bs)
                 else replacementCharacter @ toStringUtf8 (drop (contBytes k lo hi bs) bs))))"
  by pat_completeness auto
termination
  by (relation "measure length") auto

text \<open>\<open>hmac.digest('hex')\<close>: two lowercase hexadecimal digits for each byte.\<close>

definition hexDigit :: "nat \<Rightarrow> char" where
  "hexDigit n = ''0123456789abcdef'' ! n"

definition toHex :: "bytes \<Rightarrow> string" where
  "toHex bs = concat (map (\<lambda>b. [hexDigit ((of_char b :: nat) div 16), hexDigit ((of_char b :: nat) mod 16)]) bs)"

text \<open>
  \<open>verifyAlchemySignature\<close>. HMAC-SHA256 is the function of Node's \<open>crypto\<close> module and a
  parameter here: \<open>hmacSha256 key message\<close> is the 32-byte code. \<open>hmac.update(rawBody, 'utf8')\<close>
  feeds the UTF-8 bytes of the string, which are the string itself in this model. The
  signing key is \<open>config.alchemyWebhookSigningKey as string\<close>, that is
  \<open>process.env.ALCHEMY_WEBHOOK_SIGNING_KEY\<close>: \<open>undefined\<close> (\<open>None\<close>) when the variable is not
  set, and then \<open>crypto.createHmac\<close> throws a \<open>TypeError\<close>.
\<close>

definition verifyAlchemySignature ::
  "(bytes \<Rightarrow> bytes \<Rightarrow> bytes) \<Rightarrow> string \<Rightarrow> string \<Rightarrow> string option \<Rightarrow> error + bool" where
  "verifyAlchemySignature hmacSha256 rawBody signature signingKey =
     (case signingKey of
        None \<Rightarrow> Inl TypeError
      | Some key \<Rightarrow>
          (let digest = toHex (hmacSha256 key rawBody)
           in Inr (signature = digest)))"

text \<open>
  The variant of the same function that wraps its body in \<open>try\<close> and returns \<open>false\<close> from
  the \<open>catch\<close> block.
\<close>

definition verifyAlchemySignature_try ::
  "(bytes \<Rightarrow> bytes \<Rightarrow> bytes) \<Rightarrow> string \<Rightarrow> string \<Rightarrow> string option \<Rightarrow> error + bool" where
  "verifyAlchemySignature_try hmacSha256 rawBody signature signingKey =
     (case verifyAlchemySignature hmacSha256 rawBody signature signingKey of
        Inl e \<Rightarrow> Inr False
      | Inr isValid \<Rightarrow> Inr isValid)"

text \<open>A single-bit mutation of a byte string: bit \<open>j\<close> of the byte at position \<open>i\<close> is flipped.\<close>

definition flipBit :: "nat \<Rightarrow> nat \<Rightarrow> bytes \<Rightarrow> bytes" where
  "flipBit i j bs = bs[i := char_of ((of_char (bs ! i) :: nat) XOR 2 ^ j)]"

section \<open>Configuration (src/config/config.ts)\<close>

text \<open>
  The fields the services and the controller read. \<open>usdcTokenAddress\<close> holds the result of
  \<open>config.usdcTokenAddress.toBase58()\<close>.
\<close>

record config =
  solanaAddress :: string
  alchemyWebhookSigningKey :: "string option"
  usdcTokenAddress :: string

section \<open>The token-event service (src/services/tokenService.ts)\<close>

text \<open>
  The payload is \<open>unknown\<close>: the body as \<open>express.json\<close> decoded it. Of a decoded value the
  validation tells apart strings, objects (a list of properties; an array is an object
  too) and everything else (\<open>null\<close>, numbers, booleans).
\<close>

datatype jsvalue = Str string | Obj "(string \<times> jsvalue) list" | Other

text \<open>The regular expressions of \<open>validatePayload\<close>.\<close>

definition isDigit :: "char \<Rightarrow> bool" where
  "isDigit c = (48 \<le> (of_char c :: nat) \<and> (of_char c :: nat) \<le> 57)"

text \<open>The class \<open>[1-9A-HJ-NP-Za-km-z]\<close>.\<close>

definition isBase58 :: "char \<Rightarrow> bool" where
  "isBase58 c =
     (let n = (of_char c :: nat)
      in (49 \<le> n \<and> n \<le> 57) \<or> (65 \<le> n \<and> n \<le> 72) \<or> (74 \<le> n \<and> n \<le> 78)
         \<or> (80 \<le> n \<and> n \<le> 90) \<or> (97 \<le> n \<and> n \<le> 107) \<or> (109 \<le> n \<and> n \<le> 122))"

text \<open>\<open>/^[1-9A-HJ-NP-Za-km-z]{32,44}$/.test(s)\<close>\<close>

definition addressPattern :: "string \<Rightarrow> bool" where
  "addressPattern s = (32 \<le> length s \<and> length s \<le> 44 \<and> list_all isBase58 s)"

text \<open>
  \<open>/^\d*\.?\d*$/.test(s)\<close>: from the start of the string the digits are consumed, then one
  dot if there is one, then the digits again, and the end of the string must have been
  reached. The digits and the dot are disjoint, so the greedy match is the only one.
\<close>

definition amountPattern :: "string \<Rightarrow> bool" where
  "amountPattern s =
     (let afterInt = dropWhile isDigit s;
          afterDot = (case afterInt of [] \<Rightarrow> [] | c # cs \<Rightarrow> if c = CHR ''.'' then cs else c # cs);
          afterFrac = dropWhile isDigit afterDot
      in afterFrac = [])"

text \<open>
  \<open>parseFloat\<close> on a string without leading white space, sign or exponent, which is what
  reaches it after \<open>amountPattern\<close>: the digits, and the digits after a dot if one
  follows, are the value; with no digit at all the result is \<open>NaN\<close> (\<open>None\<close>).
\<close>

definition digitsValue :: "string \<Rightarrow> nat" where
  "digitsValue ds = foldl (\<lambda>acc c. 10 * acc + ((of_char c :: nat) - 48)) 0 ds"

definition parseFloat :: "string \<Rightarrow> real option" where
  "parseFloat s =
     (let intPart = takeWhile isDigit s;
          rest = dropWhile isDigit s;
          fracPart = (case rest of [] \<Rightarrow> [] | c # cs \<Rightarrow> if c = CHR ''.'' then takeWhile isDigit cs else [])
      in if intPart = [] \<and> fracPart = [] then None
         else Some (real (digitsValue intPart) + real (digitsValue fracPart) / 10 ^ length fracPart))"

text \<open>
  The six fields of the event once \<open>validatePayload\<close> has found them to be strings
  (\<open>asserts payload is AlchemyWebhookPayload\<close>).
\<close>

record event =
  event_tokenAddress :: string
  event_to :: string
  event_from :: string
  event_amount :: string
  event_hash :: string
  event_timestamp :: string

definition requiredFields :: "string list" where
  "requiredFields = [''tokenAddress'', ''to'', ''from'', ''amount'', ''hash'', ''timestamp'']"

text \<open>\<open>missingFields.join(', ')\<close>\<close>

fun join :: "string list \<Rightarrow> string" where
  "join [] = []"
| "join [x] = x"
| "join (x # y # ys) = x @ '', '' @ join (y # ys)"

text \<open>\<open>typeof event.field !== 'string'\<close> throws the message; otherwise the string is read.\<close>

definition stringField :: "(string \<times> jsvalue) list \<Rightarrow> string \<Rightarrow> string \<Rightarrow> error + string" where
  "stringField ev field message =
     (case map_of ev field of Some (Str s) \<Rightarrow> Inr s | _ \<Rightarrow> Inl (Error message))"

text \<open>The block \<open>Validate field types\<close>, in the order of the source.\<close>

definition fieldTypes :: "(string \<times> jsvalue) list \<Rightarrow> error + event" where
  "fieldTypes ev =
     (case stringField ev ''tokenAddress'' ''tokenAddress must be a string'' of Inl e \<Rightarrow> Inl e | Inr sTokenAddress \<Rightarrow>
      (case stringField ev ''to'' ''to address must be a string'' of Inl e \<Rightarrow> Inl e | Inr sTo \<Rightarrow>
      (case stringField ev ''from'' ''from address must be a string'' of Inl e \<Rightarrow> Inl e | Inr sFrom \<Rightarrow>
      (case stringField ev ''amount'' ''amount must be a string'' of Inl e \<Rightarrow> Inl e | Inr sAmount \<Rightarrow>
      (case stringField ev ''hash'' ''hash must be a string'' of Inl e \<Rightarrow> Inl e | Inr sHash \<Rightarrow>
      (case stringField ev ''timestamp'' ''timestamp must be a string'' of Inl e \<Rightarrow> Inl e | Inr sTimestamp \<Rightarrow>
         Inr \<lparr>event_tokenAddress = sTokenAddress, event_to = sTo, event_from = sFrom,
              event_amount = sAmount, event_hash = sHash, event_timestamp = sTimestamp\<rparr>))))))"

text \<open>
  \<open>validatePayload\<close>. \<open>dateGetTime s\<close> stands for \<open>new Date(s).getTime()\<close>, a function of the
  runtime and a parameter here; \<open>None\<close> is \<open>NaN\<close>. The \<open>catch\<close> block logs and rethrows.
\<close>

definition validatePayload :: "(string \<Rightarrow> int option) \<Rightarrow> jsvalue \<Rightarrow> error + event" where
  "validatePayload dateGetTime payload =
     (case payload of
        Obj props \<Rightarrow>
          (case map_of props ''event'' of
             Some (Obj ev) \<Rightarrow>
               (let missingFields = filter (\<lambda>field. map_of ev field = None) requiredFields
                in if length missingFields > 0
                   then Inl (Error (''Missing required fields: '' @ join missingFields))
                   else (case fieldTypes ev of
                           Inl e \<Rightarrow> Inl e
                         | Inr e \<Rightarrow>
                             if \<not> addressPattern (event_tokenAddress e) then Inl (Error ''Invalid token address format'')
                             else if \<not> addressPattern (event_to e) then Inl (Error ''Invalid recipient address format'')
                             else if \<not> addressPattern (event_from e) then Inl (Error ''Invalid sender address format'')
                             else if \<not> amountPattern (event_amount e) then Inl (Error ''Invalid amount format'')
                             else if dateGetTime (event_timestamp e) = None then Inl (Error ''Invalid timestamp format'')
                             else Inr e))
           | _ \<Rightarrow> Inl (Error ''Missing or invalid event object''))
      | _ \<Rightarrow> Inl (Error ''Payload must be an object''))"

text \<open>
  \<open>handleWebhook\<close> of the token-event service. The result is the exception that leaves the
  function, if any, and the store afterwards. Every \<open>catch\<close> block logs and rethrows (its
  log arguments are the error, \<open>payload.event\<close> and \<open>JSON.stringify(payload)\<close>, which do not
  throw), so an exception leaves the function as it was thrown; both \<open>throw\<close> statements
  of the inner block come before \<open>this.transfers.set\<close>.
\<close>

definition handleWebhook ::
  "(string \<Rightarrow> string) \<Rightarrow> (string \<Rightarrow> int option) \<Rightarrow> config \<Rightarrow> jsvalue \<Rightarrow> transfers
     \<Rightarrow> error option \<times> transfers" where
  "handleWebhook toLowerCase dateGetTime cfg payload st =
     (case validatePayload dateGetTime payload of
        Inl e \<Rightarrow> (Some e, st)
      | Inr e \<Rightarrow>
          (let eventTokenAddress = toLowerCase (event_tokenAddress e);
               configTokenAddress = toLowerCase (usdcTokenAddress cfg)
           in if eventTokenAddress \<noteq> configTokenAddress then (None, st)
              else
                (let eventRecipient = toLowerCase (event_to e);
                     monitoredAddress = toLowerCase (solanaAddress cfg)
                 in if eventRecipient \<noteq> monitoredAddress then (None, st)
                    else
                      (case parseFloat (event_amount e) of
                         None \<Rightarrow> (Some (Error ''Failed to parse amount''), st)
                       | Some amountValue \<Rightarrow>
                           (case dateGetTime (event_timestamp e) of
                              None \<Rightarrow> (Some (Error ''Failed to parse timestamp''), st)
                            | Some time \<Rightarrow>
                                (None, upsert st
                                  \<lparr>amount = amountValue,
                                   tokenAddress = event_tokenAddress e,
                                   from_addr = Some (event_from e),
                                   to_addr = event_to e,
                                   timestamp = time,
                                   transactionHash = event_hash e\<rparr>))))))"

section \<open>The address-activity service (the variant of tokenService.ts that imports LAMPORTS_PER_SOL)\<close>

text \<open>
  The interfaces of src/types/index.ts, with the fields the service reads and the types
  declared there. The JSON wraps the transaction detail, the message and the metadata in
  arrays, and the service reads entry 0 of each; an entry 0 that is \<open>null\<close> behaves as a
  missing one in every read the service makes, and is the empty list here.
  \<open>account_keys\<close> and \<open>instructions\<close> are \<open>None\<close> when the property is absent or not an array,
  the two cases \<open>validatePayload\<close> asks about.
\<close>

record TransactionInstruction =
  accounts :: "nat list"

record TransactionMessage =
  account_keys :: "string list option"
  instructions :: "TransactionInstruction list option"

record TransactionMeta =
  fee :: real
  pre_balances :: "real list"
  post_balances :: "real list"

record TransactionDetail =
  message :: "TransactionMessage list"

record Transaction =
  signature :: string
  transaction :: "TransactionDetail list"
  meta :: "TransactionMeta list"

text \<open>
  An item of the list \<open>payload.event.transaction\<close>, which \<open>processTransaction\<close> takes as \<open>any\<close>:
  the JSON value \<open>null\<close>, the one item of which no property can be read; a number, a string
  or a boolean, of which every property the service reads is \<open>undefined\<close>, with its truth
  value (false for \<open>0\<close>, the empty string and \<open>false\<close>); or an object, with the fields of the
  interface \<open>Transaction\<close>.
\<close>

datatype item = JsonNull | JsonPrimitive bool | JsonObject Transaction

text \<open>
  \<open>payload.type\<close> and \<open>payload.event.transaction\<close>, an array; an absent event or an absent
  transaction list is the empty list, since \<open>event?.transaction?.[0]\<close> is \<open>undefined\<close> in each
  of these cases. The payload is an object, so the first check of \<open>validatePayload\<close>
  (\<open>Payload must be an object\<close>) has no case here.
\<close>

record AlchemyWebhookPayload =
  webhook_type :: "string option"
  event_transaction :: "item list"

text \<open>The constant of \<open>@solana/web3.js\<close>.\<close>

definition LAMPORTS_PER_SOL :: real where
  "LAMPORTS_PER_SOL = 1000000000"

text \<open>
  \<open>validatePayload\<close> of this service: the type, and of the list of items the first one
  only. \<open>!typedPayload.event?.transaction?.[0]\<close> holds of an empty list and of a first item
  that is \<open>null\<close> or a false primitive value; of a true primitive value
  \<open>transaction.transaction?.[0]\<close> is \<open>undefined\<close>.
\<close>

definition validatePayload_activity :: "AlchemyWebhookPayload \<Rightarrow> error + unit" where
  "validatePayload_activity payload =
     (case webhook_type payload of
        None \<Rightarrow> Inl (Error ''Missing webhook type'')
      | Some ty \<Rightarrow>
          if ty = [] then Inl (Error ''Missing webhook type'')
          else if ty \<noteq> ''ADDRESS_ACTIVITY'' then Inl (Error (''Unsupported webhook type: '' @ ty))
          else (case event_transaction payload of
                  [] \<Rightarrow> Inl (Error ''Missing transaction data'')
                | JsonNull # _ \<Rightarrow> Inl (Error ''Missing transaction data'')
                | JsonPrimitive truthy # _ \<Rightarrow>
                    if truthy then Inl (Error ''Invalid transaction structure'')
                    else Inl (Error ''Missing transaction data'')
                | JsonObject tx # _ \<Rightarrow>
                    (case transaction tx of
                       [] \<Rightarrow> Inl (Error ''Invalid transaction structure'')
                     | detail # _ \<Rightarrow>
                         (case message detail of
                            [] \<Rightarrow> Inl (Error ''Invalid transaction structure'')
                          | msg # _ \<Rightarrow>
                              if account_keys msg = None then Inl (Error ''Missing or invalid account_keys'')
                              else if instructions msg = None then Inl (Error ''Missing or invalid instructions'')
                              else if meta tx = [] then Inl (Error ''Missing transaction metadata'')
                              else Inr ()))))"

definition isMonitoredAddress :: "(string \<Rightarrow> string) \<Rightarrow> config \<Rightarrow> string \<Rightarrow> bool" where
  "isMonitoredAddress toLowerCase cfg address =
     (toLowerCase address = toLowerCase (solanaAddress cfg))"

text \<open>
  \<open>processTransaction\<close>. \<open>now\<close> is the value of \<open>Date.now()\<close>. The first statement reads
  \<open>transaction.transaction[0]\<close>: of \<open>null\<close> the read of \<open>transaction.transaction\<close> throws a
  \<open>TypeError\<close>, of a primitive value it is \<open>undefined\<close> and the read of its entry 0 throws.
  Of an object, reading entry 0 of an empty array gives \<open>undefined\<close>, and the next property
  read of it throws a \<open>TypeError\<close>: \<open>message.account_keys\<close>, \<open>meta.pre_balances\<close> (an argument of
  the first \<open>logger.debug\<close> call), \<open>accounts.findIndex\<close>, \<open>instructions[0]\<close> and
  \<open>instructions[0].accounts\<close>. A balance read out of range is \<open>undefined\<close>, the difference
  is then \<open>NaN\<close>, and \<open>NaN > 0\<close> is false. \<open>accounts[undefined]\<close> and an account read out of
  range are \<open>undefined\<close> and do not throw. The \<open>catch\<close> block reads \<open>transaction.signature\<close>
  for its log and rethrows; of \<open>null\<close> that read throws a \<open>TypeError\<close> of its own. In every
  case where the \<open>try\<close> block throws, a \<open>TypeError\<close> leaves the function.
\<close>

definition processTransaction ::
  "(string \<Rightarrow> string) \<Rightarrow> config \<Rightarrow> int \<Rightarrow> item \<Rightarrow> transfers \<Rightarrow> error + transfers" where
  "processTransaction toLowerCase cfg now item st =
     (case item of
        JsonNull \<Rightarrow> Inl TypeError
      | JsonPrimitive _ \<Rightarrow> Inl TypeError
      | JsonObject tx \<Rightarrow>
     (case transaction tx of
        [] \<Rightarrow> Inl TypeError
      | detail # _ \<Rightarrow>
     (case message detail of
        [] \<Rightarrow> Inl TypeError
      | msg # _ \<Rightarrow>
     (case meta tx of
        [] \<Rightarrow> Inl TypeError
      | mt # _ \<Rightarrow>
     (case account_keys msg of
        None \<Rightarrow> Inl TypeError
      | Some accs \<Rightarrow>
     (case findIndex (isMonitoredAddress toLowerCase cfg) accs of
        None \<Rightarrow> Inr st
      | Some monitoredAddressIndex \<Rightarrow>
          (let preBalance = index (pre_balances mt) monitoredAddressIndex;
               postBalance = index (post_balances mt) monitoredAddressIndex;
               balanceChange =
                 (case (postBalance, preBalance) of
                    (Some post, Some pre) \<Rightarrow> Some ((post - pre) / LAMPORTS_PER_SOL)
                  | _ \<Rightarrow> None)
           in (case balanceChange of
                 None \<Rightarrow> Inr st
               | Some change \<Rightarrow>
                   if change > 0
                   then (case instructions msg of
                           None \<Rightarrow> Inl TypeError
                         | Some [] \<Rightarrow> Inl TypeError
                         | Some (instruction # _) \<Rightarrow>
                             Inr (upsert st
                               \<lparr>amount = change,
                                tokenAddress = ''SOL'',
                                from_addr = (case accounts instruction of
                                               [] \<Rightarrow> None
                                             | k # _ \<Rightarrow> index accs k),
                                to_addr = accs ! monitoredAddressIndex,
                                timestamp = now,
                                transactionHash = signature tx\<rparr>))
                   else Inr st))))))))"

text \<open>
  The loop of \<open>handleWebhook\<close>; the result is the exception that leaves the loop, if any,
  and the store at that moment. \<open>clock n\<close> is what \<open>Date.now()\<close> returns while the item at
  position \<open>n\<close> is processed. Every item is processed inside its own \<open>try\<close>, whose \<open>catch\<close>
  block logs and goes on to the next item. One argument of that log is
  \<open>transaction.signature\<close>: it is \<open>undefined\<close> or a string for a primitive value and an
  object, and for the item \<open>null\<close> the read throws a \<open>TypeError\<close> inside the \<open>catch\<close> block,
  which leaves the loop: the items after it are not processed, and what was stored
  before stays.
\<close>

fun processTransactions ::
  "(string \<Rightarrow> string) \<Rightarrow> config \<Rightarrow> (nat \<Rightarrow> int) \<Rightarrow> nat \<Rightarrow> item list \<Rightarrow> transfers
     \<Rightarrow> error option \<times> transfers" where
  "processTransactions toLowerCase cfg clock n [] st = (None, st)"
| "processTransactions toLowerCase cfg clock n (item # items) st =
     (case processTransaction toLowerCase cfg (clock n) item st of
        Inl e \<Rightarrow>
          (case item of
             JsonNull \<Rightarrow> (Some TypeError, st)
           | _ \<Rightarrow> processTransactions toLowerCase cfg clock (Suc n) items st)
      | Inr st' \<Rightarrow> processTransactions toLowerCase cfg clock (Suc n) items st')"

text \<open>
  \<open>handleWebhook\<close> of this service: the exception that leaves it, if any, and the store
  afterwards. The outer \<open>catch\<close> block logs (\<open>JSON.stringify(payload)\<close> does not throw) and
  rethrows.
\<close>

definition handleWebhook_activity ::
  "(string \<Rightarrow> string) \<Rightarrow> config \<Rightarrow> (nat \<Rightarrow> int) \<Rightarrow> AlchemyWebhookPayload \<Rightarrow> transfers
     \<Rightarrow> error option \<times> transfers" where
  "handleWebhook_activity toLowerCase cfg clock payload st =
     (case validatePayload_activity payload of
        Inl e \<Rightarrow> (Some e, st)
      | Inr _ \<Rightarrow> processTransactions toLowerCase cfg clock 0 (event_transaction payload) st)"

section \<open>The controller (src/controllers/webhookController.ts)\<close>

text \<open>
  Of the request the handler reads the header \<open>x-alchemy-signature\<close> (absent, one string,
  or an array of strings), the raw body that the \<open>verify\<close> hook of \<open>express.json\<close> stored
  (\<open>undefined\<close> when the hook did not run) and the decoded body. The response is the status
  and the text of its JSON body.
\<close>

datatype header = NoHeader | Header string | Headers "string list"

record 'body request =
  x_alchemy_signature :: header
  rawBody :: "bytes option"
  body :: 'body

datatype response = Response nat string

text \<open>
  \<open>webhookController.handleWebhook\<close>. \<open>service\<close> is \<open>tokenService.handleWebhook\<close>, either of
  the two services above: it returns the exception it throws, if any, and the store it
  leaves. An exception of the verification or of the service reaches the \<open>catch\<close> block
  of the handler, which answers 500; what the service stored before it threw stays in
  the store.
\<close>

definition webhookController_handleWebhook ::
  "(bytes \<Rightarrow> bytes \<Rightarrow> bytes) \<Rightarrow> config \<Rightarrow> ('body \<Rightarrow> transfers \<Rightarrow> error option \<times> transfers)
     \<Rightarrow> 'body request \<Rightarrow> transfers \<Rightarrow> response \<times> transfers" where
  "webhookController_handleWebhook hmacSha256 cfg service req st =
     (case x_alchemy_signature req of
        Header sig \<Rightarrow>
          if sig = [] then (Response 401 ''Missing signature'', st)
          else (case rawBody req of
                  None \<Rightarrow> (Response 500 ''Internal server error'', st)
                | Some raw \<Rightarrow>
                    (case verifyAlchemySignature hmacSha256 (toStringUtf8 raw) sig
                            (alchemyWebhookSigningKey cfg) of
                       Inl e \<Rightarrow> (Response 500 ''Internal server error'', st)
                     | Inr isValid \<Rightarrow>
                         if \<not> isValid then (Response 401 ''Invalid signature'', st)
                         else (case service (body req) st of
                                 (Some e, st') \<Rightarrow> (Response 500 ''Internal server error'', st')
                               | (None, st') \<Rightarrow> (Response 200 ''Webhook processed successfully'', st'))))
      | _ \<Rightarrow> (Response 401 ''Missing signature'', st))"

section \<open>Predicates of the specification and proof devices\<close>

text \<open>
  The format of an amount: every character is a digit or the point, and the point occurs
  at most once; there need not be any digit.
\<close>

definition amountFormat :: "string \<Rightarrow> bool" where
  "amountFormat s =
     (list_all (\<lambda>c. isDigit c \<or> c = CHR ''.'') s \<and> count_list s (CHR ''.'') \<le> 1)"

text \<open>
  The spec's words for the amount: a plain decimal numeral, digits with an optional single
  decimal point. A numeral has a digit.
\<close>

definition plainDecimalNumeral :: "string \<Rightarrow> bool" where
  "plainDecimalNumeral s = (amountFormat s \<and> list_ex isDigit s)"

text \<open>
  Well-formed UTF-8, by the table of the Unicode standard: the bytes 00..7F; C2..DF with
  one continuation byte; E0..EF with two, the first from A0 after E0 and up to 9F after
  ED; F0..F4 with three, the first from 90 after F0 and up to 8F after F4.
\<close>

definition inRange :: "nat \<Rightarrow> nat \<Rightarrow> char \<Rightarrow> bool" where
  "inRange lo hi c = (lo \<le> (of_char c :: nat) \<and> (of_char c :: nat) \<le> hi)"

fun wellFormedUtf8 :: "bytes \<Rightarrow> bool" where
  "wellFormedUtf8 [] = True"
| "wellFormedUtf8 (a # bs) =
     (let n = (of_char a :: nat) in
      if n < 0x80 then wellFormedUtf8 bs
      else if 0xC2 \<le> n \<and> n \<le> 0xDF then
        (case bs of
           b # r \<Rightarrow> inRange 0x80 0xBF b \<and> wellFormedUtf8 r
         | _ \<Rightarrow> False)
      else if 0xE0 \<le> n \<and> n \<le> 0xEF then
        (case bs of
           b # c # r \<Rightarrow>
             inRange (if n = 0xE0 then 0xA0 else 0x80) (if n = 0xED then 0x9F else 0xBF) b
             \<and> inRange 0x80 0xBF c \<and> wellFormedUtf8 r
         | _ \<Rightarrow> False)
      else if 0xF0 \<le> n \<and> n \<le> 0xF4 then
        (case bs of
           b # c # d # r \<Rightarrow>
             inRange (if n = 0xF0 then 0x90 else 0x80) (if n = 0xF4 then 0x8F else 0xBF) b
             \<and> inRange 0x80 0xBF c \<and> inRange 0x80 0xBF d \<and> wellFormedUtf8 r
         | _ \<Rightarrow> False)
      else False)"

text \<open>A lowercase hexadecimal digit.\<close>

definition isLowerHex :: "char \<Rightarrow> bool" where
  "isLowerHex c = (c \<in> set ''0123456789abcdef'')"

text \<open>Key-record coherence of a store: every record is found under its own transactionHash.\<close>

definition keyCoherent :: "transfers \<Rightarrow> bool" where
  "keyCoherent st = (\<forall>h r. getTransferByHash st h = Some r \<longrightarrow> transactionHash r = h)"

text \<open>
  What \<open>processTransaction\<close> does to an empty store, read back: the exception, no record,
  or the record it stores under the signature. The lemma \<open>processTransaction_extracted\<close>
  below shows that this determines the function on every store.
\<close>

definition extracted ::
  "(string \<Rightarrow> string) \<Rightarrow> config \<Rightarrow> int \<Rightarrow> item \<Rightarrow> error + TokenTransfer option" where
  "extracted toLowerCase cfg now item =
     (case processTransaction toLowerCase cfg now item new_transfers of
        Inl e \<Rightarrow> Inl e
      | Inr st' \<Rightarrow>
          Inr (case item of
                 JsonObject tx \<Rightarrow> getTransferByHash st' (signature tx)
               | _ \<Rightarrow> None))"

section \<open>Concrete inputs\<close>

text \<open>
  The inputs at which the theorems below are evaluated. \<open>exampleMac\<close> stands in for
  HMAC-SHA256 there: the evaluations need a function whose digests can be computed, and
  nothing else about it is used.
\<close>

definition exampleAddress :: string where
  "exampleAddress = ''9WzDXwBbmkg8ZTbNMqUxvQRAyrZzDsGYdLVL9zYtAWWM''"

definition exampleMint :: string where
  "exampleMint = ''EPjFWdd5AufqSSqeM2qN1xzybapC8G4wEGGkZwyTDt1v''"

definition exampleSender :: string where
  "exampleSender = ''4Nd1mBQtrMJVYVfKf2PJy9NZUZdTAsp7D4xWLs4gDB4T''"

definition exampleConfig :: config where
  "exampleConfig = \<lparr>solanaAddress = exampleAddress, alchemyWebhookSigningKey = Some ''whsec'',
     usdcTokenAddress = exampleMint\<rparr>"

text \<open>
  \<open>String.prototype.toLowerCase\<close> on strings of ASCII characters, where it changes the
  letters A to Z and nothing else; every string of the inputs below is such a string.
\<close>

definition asciiLowerChar :: "char \<Rightarrow> char" where
  "asciiLowerChar c =
     (let n = (of_char c :: nat) in if 65 \<le> n \<and> n \<le> 90 then char_of (n + 32) else c)"

definition asciiLowerCase :: "string \<Rightarrow> string" where
  "asciiLowerCase s = map asciiLowerChar s"

definition exampleMac :: "bytes \<Rightarrow> bytes \<Rightarrow> bytes" where
  "exampleMac key msg = key @ msg"

definition exampleDate :: "string \<Rightarrow> int option" where
  "exampleDate s = (if s = ''2024-01-01T00:00:00.000Z'' then Some 1704067200000 else None)"

definition exampleClock :: "nat \<Rightarrow> int" where
  "exampleClock n = 1000 + int n"

text \<open>
  Address-activity items: the monitored address is account 1, and its balance goes from
  1000000000 to 1500000000 lamports (scenario C of the spec), except in \<open>outgoingItem\<close>.
\<close>

definition exampleMessage :: "TransactionInstruction list \<Rightarrow> TransactionMessage" where
  "exampleMessage is =
     \<lparr>account_keys = Some [exampleSender, exampleAddress], instructions = Some is\<rparr>"

definition exampleMeta :: TransactionMeta where
  "exampleMeta = \<lparr>fee = 5000, pre_balances = [2000000000, 1000000000],
     post_balances = [1499995000, 1500000000]\<rparr>"

definition validItem :: Transaction where
  "validItem = \<lparr>signature = ''sig2'',
     transaction = [\<lparr>message = [exampleMessage [\<lparr>accounts = [0, 1]\<rparr>]]\<rparr>],
     meta = [exampleMeta]\<rparr>"

definition outgoingItem :: Transaction where
  "outgoingItem = \<lparr>signature = ''sig5'',
     transaction = [\<lparr>message = [exampleMessage [\<lparr>accounts = [1, 0]\<rparr>]]\<rparr>],
     meta = [\<lparr>fee = 5000, pre_balances = [2000000000, 1500000000],
              post_balances = [2499995000, 1000000000]\<rparr>]\<rparr>"

definition unrelatedItem :: Transaction where
  "unrelatedItem = \<lparr>signature = ''sig6'',
     transaction = [\<lparr>message = [\<lparr>account_keys = Some [exampleSender, exampleMint],
                                   instructions = Some [\<lparr>accounts = [0, 1]\<rparr>]\<rparr>]\<rparr>],
     meta = [exampleMeta]\<rparr>"

definition noInstructionsItem :: Transaction where
  "noInstructionsItem = \<lparr>signature = ''sig1'',
     transaction = [\<lparr>message = [exampleMessage []]\<rparr>],
     meta = [exampleMeta]\<rparr>"

definition noAccountsItem :: Transaction where
  "noAccountsItem = \<lparr>signature = ''sig3'',
     transaction = [\<lparr>message = [exampleMessage [\<lparr>accounts = []\<rparr>]]\<rparr>],
     meta = [exampleMeta]\<rparr>"



definition validRecord :: TokenTransfer where
  "validRecord = \<lparr>amount = 1 / 2, tokenAddress = ''SOL'', from_addr = Some exampleSender,
     to_addr = exampleAddress, timestamp = 1001, transactionHash = ''sig2''\<rparr>"

definition activityPayload :: "item list \<Rightarrow> AlchemyWebhookPayload" where
  "activityPayload txs = \<lparr>webhook_type = Some ''ADDRESS_ACTIVITY'', event_transaction = txs\<rparr>"

text \<open>
  A token event with the configured token and recipient (scenario A of the spec when the
  amount is 12.5), the event \<open>validatePayload\<close> returns for it, and the record it stores.
\<close>

definition tokenEventFields :: "string \<Rightarrow> (string \<times> jsvalue) list" where
  "tokenEventFields amt =
     [(''tokenAddress'', Str exampleMint), (''to'', Str exampleAddress),
      (''from'', Str exampleSender), (''amount'', Str amt), (''hash'', Str ''abc123''),
      (''timestamp'', Str ''2024-01-01T00:00:00.000Z'')]"

definition tokenEvent :: "string \<Rightarrow> jsvalue" where
  "tokenEvent amt = Obj [(''event'', Obj (tokenEventFields amt))]"

definition exampleEvent :: "string \<Rightarrow> event" where
  "exampleEvent amt = \<lparr>event_tokenAddress = exampleMint, event_to = exampleAddress,
     event_from = exampleSender, event_amount = amt, event_hash = ''abc123'',
     event_timestamp = ''2024-01-01T00:00:00.000Z''\<rparr>"

definition legacyRecord :: TokenTransfer where
  "legacyRecord = \<lparr>amount = 25 / 2, tokenAddress = exampleMint, from_addr = Some exampleSender,
     to_addr = exampleAddress, timestamp = 1704067200000, transactionHash = ''abc123''\<rparr>"

text \<open>
  A request whose signature header is the digest \<open>exampleMac\<close> gives for the raw body \<open>{}\<close>
  under the key of \<open>exampleConfig\<close>. The decoded body is a field of its own: how
  \<open>express.json\<close> parses the raw body is not part of the model.
\<close>

definition exampleRequest :: "'body \<Rightarrow> 'body request" where
  "exampleRequest b =
     \<lparr>x_alchemy_signature = Header ''77687365637b7d'', rawBody = Some ''{}'', body = b\<rparr>"

section \<open>Lemmas: bytes, digits and digests\<close>

lemma of_char_less_256: "(of_char c :: nat) < 256"
  by (metis of_char_mod_256 mod_less_divisor zero_less_numeral)

lemma of_char_div_16: "(of_char c :: nat) div 16 < 16"
  using of_char_less_256 [of c] by arith

lemma hexDigit_inj_aux:
  "\<forall>a\<in>{..<16::nat}. \<forall>b\<in>{..<16}. hexDigit a = hexDigit b \<longrightarrow> a = b"
  by code_simp

lemma hexDigit_inj: "a < 16 \<Longrightarrow> b < 16 \<Longrightarrow> hexDigit a = hexDigit b \<Longrightarrow> a = b"
  using hexDigit_inj_aux by (simp add: Ball_def)

lemma hexByte_inj:
  assumes "hexDigit ((of_char b :: nat) div 16) = hexDigit ((of_char c :: nat) div 16)"
    and "hexDigit ((of_char b :: nat) mod 16) = hexDigit ((of_char c :: nat) mod 16)"
  shows "b = c"
proof -
  have "(of_char b :: nat) div 16 = of_char c div 16"
    using assms(1) by (intro hexDigit_inj of_char_div_16)
  moreover have "(of_char b :: nat) mod 16 = of_char c mod 16"
    using assms(2) by (intro hexDigit_inj) simp_all
  ultimately have "(of_char b :: nat) = of_char c"
    by (metis div_mult_mod_eq)
  then show ?thesis by simp
qed

text \<open>Different codes have different hexadecimal digests.\<close>

lemma toHex_inj: "toHex bs = toHex cs \<Longrightarrow> bs = cs"
proof (induction bs arbitrary: cs)
  case Nil
  then show ?case by (cases cs) (simp_all add: toHex_def)
next
  case (Cons b bs)
  then obtain c cs' where cs: "cs = c # cs'"
    by (cases cs) (simp_all add: toHex_def)
  with Cons.prems have "b = c" and "toHex bs = toHex cs'"
    by (auto simp: toHex_def intro: hexByte_inj)
  with Cons.IH cs show ?case by simp
qed

lemma hexDigit_lower_aux: "\<forall>a\<in>{..<16::nat}. isLowerHex (hexDigit a)"
  by code_simp

lemma toHex_lower: "list_all isLowerHex (toHex bs)"
  using hexDigit_lower_aux of_char_div_16
  by (induction bs) (auto simp: toHex_def Ball_def)

text \<open>Flipping one of the eight bits of a byte changes the byte.\<close>

lemma flipChar_neq:
  assumes "j < 8"
  shows "char_of ((of_char c :: nat) XOR 2 ^ j) \<noteq> c"
proof
  assume "char_of ((of_char c :: nat) XOR 2 ^ j) = c"
  then have "(of_char (char_of ((of_char c :: nat) XOR 2 ^ j) :: char) :: nat) = of_char c"
    by simp
  then have "take_bit 8 ((of_char c :: nat) XOR 2 ^ j) = of_char c"
    by (simp add: take_bit_eq_mod)
  then have "bit (take_bit 8 ((of_char c :: nat) XOR 2 ^ j)) j = bit (of_char c :: nat) j"
    by simp
  with assms show False
    by (simp add: bit_take_bit_iff bit_xor_iff bit_exp_iff)
qed

lemma flipBit_neq: "i < length bs \<Longrightarrow> j < 8 \<Longrightarrow> flipBit i j bs \<noteq> bs"
  by (metis flipBit_def flipChar_neq nth_list_update_eq)

text \<open>A body that is well-formed UTF-8 is decoded to itself.\<close>

lemma toStringUtf8_lead:
  assumes "\<not> (of_char a :: nat) < 0x80" and "leadByte (of_char a) = Some (k, lo, hi)"
    and "contBytes k lo hi bs = k"
  shows "toStringUtf8 (a # bs) = a # take k bs @ toStringUtf8 (drop k bs)"
  using assms by simp

lemma toStringUtf8_wellFormed: "wellFormedUtf8 b \<Longrightarrow> toStringUtf8 b = b"
proof (induction "length b" arbitrary: b rule: less_induct)
  case less
  show ?case
  proof (cases b)
    case Nil
    then show ?thesis by simp
  next
    case (Cons a bs)
    let ?n = "of_char a :: nat"
    consider (ascii) "?n < 0x80"
      | (two) "0xC2 \<le> ?n" "?n \<le> 0xDF"
      | (three) "0xE0 \<le> ?n" "?n \<le> 0xEF"
      | (four) "0xF0 \<le> ?n" "?n \<le> 0xF4"
      | (continuation) "0x80 \<le> ?n" "?n < 0xC2"
      | (beyond) "0xF4 < ?n"
      by linarith
    then show ?thesis
    proof cases
      case ascii
      with less.prems Cons have "wellFormedUtf8 bs" by simp
      with less.hyps [of bs] Cons have "toStringUtf8 bs = bs" by simp
      with ascii Cons show ?thesis by simp
    next
      case two
      with less.prems Cons obtain c r where bs: "bs = c # r"
        and c: "inRange 0x80 0xBF c" and r: "wellFormedUtf8 r"
        by (auto simp: Let_def split: list.splits)
      from less.hyps [of r] r Cons bs have ih: "toStringUtf8 r = r" by simp
      have lead: "leadByte ?n = Some (1, 0x80, 0xBF)"
        using two by (simp add: leadByte_def)
      have cont: "contBytes 1 0x80 0xBF bs = 1"
        using c by (simp add: bs inRange_def)
      have "\<not> ?n < 0x80" using two by simp
      from toStringUtf8_lead [OF this lead cont] ih show ?thesis
        by (simp add: Cons bs)
    next
      case three
      let ?lo = "if ?n = 0xE0 then 0xA0 else (0x80::nat)"
      let ?hi = "if ?n = 0xED then 0x9F else (0xBF::nat)"
      from three less.prems Cons obtain c d r where bs: "bs = c # d # r"
        and c: "inRange ?lo ?hi c" and d: "inRange 0x80 0xBF d" and r: "wellFormedUtf8 r"
        by (auto simp: Let_def split: list.splits)
      from less.hyps [of r] r Cons bs have ih: "toStringUtf8 r = r" by simp
      have lead: "leadByte ?n = Some (2, ?lo, ?hi)"
        using three by (simp add: leadByte_def)
      have cont: "contBytes 2 ?lo ?hi bs = 2"
        using c d by (simp add: bs inRange_def numeral_2_eq_2)
      have "\<not> ?n < 0x80" using three by simp
      from toStringUtf8_lead [OF this lead cont] ih show ?thesis
        by (simp add: Cons bs)
    next
      case four
      let ?lo = "if ?n = 0xF0 then 0x90 else (0x80::nat)"
      let ?hi = "if ?n = 0xF4 then 0x8F else (0xBF::nat)"
      from four less.prems Cons obtain c d e r where bs: "bs = c # d # e # r"
        and c: "inRange ?lo ?hi c" and d: "inRange 0x80 0xBF d" and e: "inRange 0x80 0xBF e"
        and r: "wellFormedUtf8 r"
        by (auto simp: Let_def split: list.splits)
      from less.hyps [of r] r Cons bs have ih: "toStringUtf8 r = r" by simp
      have lead: "leadByte ?n = Some (3, ?lo, ?hi)"
        using four by (simp add: leadByte_def)
      have cont: "contBytes 3 ?lo ?hi bs = 3"
        using c d e by (simp add: bs inRange_def numeral_3_eq_3)
      have "\<not> ?n < 0x80" using four by simp
      from toStringUtf8_lead [OF this lead cont] ih show ?thesis
        by (simp add: Cons bs)
    next
      case continuation
      with less.prems Cons show ?thesis by (simp add: Let_def)
    next
      case beyond
      with less.prems Cons show ?thesis by (simp add: Let_def)
    qed
  qed
qed

section \<open>Lemmas: lists\<close>

lemma findIndex_None: "findIndex P xs = None \<longleftrightarrow> (\<forall>x\<in>set xs. \<not> P x)"
  by (induction xs) auto

lemma findIndex_first:
  "i < length xs \<Longrightarrow> P (xs ! i) \<Longrightarrow> (\<forall>j<i. \<not> P (xs ! j)) \<Longrightarrow> findIndex P xs = Some i"
proof (induction xs arbitrary: i)
  case Nil
  then show ?case by simp
next
  case (Cons x xs)
  show ?case
  proof (cases i)
    case 0
    with Cons.prems show ?thesis by simp
  next
    case (Suc i')
    with Cons.prems have "\<not> P x" by auto
    moreover from Suc Cons.prems have "findIndex P xs = Some i'"
      by (intro Cons.IH) auto
    ultimately show ?thesis using Suc by simp
  qed
qed

lemma index_nth: "i < length xs \<Longrightarrow> index xs i = Some (xs ! i)"
  by (induction xs i rule: index.induct) auto

lemma index_beyond: "length xs \<le> i \<Longrightarrow> index xs i = None"
  by (induction xs i rule: index.induct) auto

section \<open>Lemmas: the store and the address-activity service\<close>

lemma keyCoherent_upsert: "keyCoherent st \<Longrightarrow> keyCoherent (upsert st r)"
  by (auto simp: keyCoherent_def upsert_def getTransferByHash_def)



text \<open>
  \<open>processTransaction\<close> reads the store nowhere: whether it throws, and the record it
  stores, depend on the case fold, the configuration, the clock and the item only.
\<close>

lemma processTransaction_extracted:
  "processTransaction toLowerCase cfg now item st =
     (case extracted toLowerCase cfg now item of
        Inl e \<Rightarrow> Inl e
      | Inr None \<Rightarrow> Inr st
      | Inr (Some r) \<Rightarrow> Inr (upsert st r))"
  by (simp add: extracted_def processTransaction_def Let_def upsert_def getTransferByHash_def
      new_transfers_def split: item.splits list.splits option.splits)



text \<open>
  A balance list that does not reach the position of the monitored address: the
  difference is \<open>NaN\<close> and nothing is stored. A positive difference and a first instruction
  without accounts: the record is stored without a sender.
\<close>

lemma processTransaction_missing_balance:
  assumes "transaction tx = detail # details" and "message detail = msg # msgs"
    and "meta tx = mt # mts" and "account_keys msg = Some accs"
    and "findIndex (isMonitoredAddress toLowerCase cfg) accs = Some i"
    and "length (pre_balances mt) \<le> i \<or> length (post_balances mt) \<le> i"
  shows "processTransaction toLowerCase cfg now (JsonObject tx) st = Inr st"
proof -
  from assms(6) have "index (pre_balances mt) i = None \<or> index (post_balances mt) i = None"
    by (auto simp: index_beyond)
  then show ?thesis
  proof
    assume "index (pre_balances mt) i = None"
    with assms(1-5) show ?thesis
      by (simp add: processTransaction_def split: option.split)
  next
    assume "index (post_balances mt) i = None"
    with assms(1-5) show ?thesis
      by (simp add: processTransaction_def)
  qed
qed

lemma processTransaction_no_sender:
  assumes "transaction tx = detail # details" and "message detail = msg # msgs"
    and "meta tx = mt # mts" and "account_keys msg = Some accs"
    and "findIndex (isMonitoredAddress toLowerCase cfg) accs = Some i"
    and "index (pre_balances mt) i = Some pre" and "index (post_balances mt) i = Some post"
    and "(post - pre) / LAMPORTS_PER_SOL > 0"
    and "instructions msg = Some (instruction # rest)" and "accounts instruction = []"
  shows "processTransaction toLowerCase cfg now (JsonObject tx) st
           = Inr (upsert st
               \<lparr>amount = (post - pre) / LAMPORTS_PER_SOL, tokenAddress = ''SOL'',
                from_addr = None, to_addr = accs ! i, timestamp = now,
                transactionHash = signature tx\<rparr>)"
  using assms by (simp add: processTransaction_def)

text \<open>
  The loop, one item at a time: the item \<open>null\<close> ends it with a \<open>TypeError\<close>; after any other
  item it goes on, with the store the item left, or with the store as it was when the
  item threw.
\<close>

lemma processTransactions_null:
  "processTransactions toLowerCase cfg clock n (JsonNull # items) st = (Some TypeError, st)"
  by (simp add: processTransaction_def)

lemma processTransactions_step:
  "item \<noteq> JsonNull \<Longrightarrow>
   processTransactions toLowerCase cfg clock n (item # items) st =
     processTransactions toLowerCase cfg clock (Suc n) items
       (case processTransaction toLowerCase cfg (clock n) item st of
          Inl e \<Rightarrow> st
        | Inr st' \<Rightarrow> st')"
  by (cases item) (simp_all split: sum.splits)





lemma keyCoherent_step:
  "keyCoherent st \<Longrightarrow>
     keyCoherent (case processTransaction toLowerCase cfg now item st of
                    Inl e \<Rightarrow> st
                  | Inr st' \<Rightarrow> st')"
  by (cases "extracted toLowerCase cfg now item")
     (auto simp: processTransaction_extracted [of toLowerCase cfg now item st] keyCoherent_upsert
        split: option.splits)

lemma keyCoherent_processTransaction:
  "keyCoherent st \<Longrightarrow> processTransaction toLowerCase cfg now item st = Inr st' \<Longrightarrow>
     keyCoherent st'"
  using keyCoherent_step [of st toLowerCase cfg now item] by simp

lemma keyCoherent_processTransactions:
  "keyCoherent st \<Longrightarrow> keyCoherent (snd (processTransactions toLowerCase cfg clock n items st))"
proof (induction items arbitrary: n st)
  case Nil
  then show ?case by simp
next
  case (Cons item items)
  show ?case
  proof (cases "item = JsonNull")
    case True
    with Cons.prems show ?thesis by (simp only: processTransactions_null snd_conv)
  next
    case False
    with Cons show ?thesis
      by (simp add: processTransactions_step keyCoherent_step del: processTransactions.simps)
  qed
qed

lemma keyCoherent_handleWebhook_activity:
  "keyCoherent st \<Longrightarrow>
     keyCoherent (snd (handleWebhook_activity toLowerCase cfg clock payload st))"
  by (simp add: handleWebhook_activity_def keyCoherent_processTransactions split: sum.splits)


lemma handleWebhook_activity_rejected:
  "validatePayload_activity payload = Inl e \<Longrightarrow>
     handleWebhook_activity toLowerCase cfg clock payload st = (Some e, st)"
  by (simp add: handleWebhook_activity_def)

section \<open>Lemmas: the token-event service\<close>

lemma dot_not_digit: "\<not> isDigit (CHR ''.'')"
  by (simp add: isDigit_def)

lemma digits_no_dot: "list_all isDigit s \<Longrightarrow> count_list s (CHR ''.'') = 0"
  using dot_not_digit by (induction s) auto

lemma amountPattern_digit: "isDigit c \<Longrightarrow> amountPattern (c # cs) = amountPattern cs"
  by (simp add: amountPattern_def)

lemma amountPattern_dot: "amountPattern (CHR ''.'' # cs) = list_all isDigit cs"
  using dot_not_digit by (auto simp: amountPattern_def list_all_iff)

lemma amountPattern_other:
  "\<not> isDigit c \<Longrightarrow> c \<noteq> CHR ''.'' \<Longrightarrow> \<not> amountPattern (c # cs)"
  by (auto simp: amountPattern_def)

lemma amountFormat_dot: "amountFormat (CHR ''.'' # cs) = list_all isDigit cs"
proof
  assume "amountFormat (CHR ''.'' # cs)"
  then have a: "list_all (\<lambda>c. isDigit c \<or> c = CHR ''.'') cs"
    and c: "count_list cs (CHR ''.'') = 0"
    by (simp_all add: amountFormat_def)
  from c have "CHR ''.'' \<notin> set cs" by (simp add: count_list_0_iff)
  with a show "list_all isDigit cs" by (auto simp: list_all_iff)
next
  assume "list_all isDigit cs"
  then show "amountFormat (CHR ''.'' # cs)"
    using digits_no_dot [of cs] by (auto simp: amountFormat_def list_all_iff)
qed

text \<open>The regular expression of the source accepts exactly the strings of that format.\<close>

lemma amountPattern_amountFormat: "amountPattern s \<longleftrightarrow> amountFormat s"
proof (induction s)
  case Nil
  then show ?case by (simp add: amountPattern_def amountFormat_def)
next
  case (Cons c cs)
  consider "isDigit c" | "c = CHR ''.''" | "\<not> isDigit c" "c \<noteq> CHR ''.''" by blast
  then show ?case
  proof cases
    case 1
    then have "c \<noteq> CHR ''.''" using dot_not_digit by auto
    with 1 Cons show ?thesis
      by (simp add: amountPattern_digit amountFormat_def)
  next
    case 2
    then show ?thesis by (simp add: amountPattern_dot amountFormat_dot)
  next
    case 3
    then show ?thesis by (simp add: amountPattern_other amountFormat_def)
  qed
qed

text \<open>
  An accepted string is a run of digits, or two runs with the point between them; and
  \<open>parseFloat\<close> yields a number for it exactly when it has a digit.
\<close>

lemma takeWhile_digits: "list_all isDigit ds \<Longrightarrow> takeWhile isDigit ds = ds"
  by (induction ds) auto

lemma dropWhile_digits: "list_all isDigit ds \<Longrightarrow> dropWhile isDigit ds = []"
  by (induction ds) auto

lemma amountPattern_shape:
  "amountPattern s \<longleftrightarrow>
     (\<exists>ip fp. list_all isDigit ip \<and> list_all isDigit fp
        \<and> (s = ip \<or> s = ip @ CHR ''.'' # fp))"
proof
  assume a: "amountPattern s"
  let ?ip = "takeWhile isDigit s" and ?r = "dropWhile isDigit s"
  have ip: "list_all isDigit ?ip"
    by (simp add: list_all_iff) (meson set_takeWhileD)
  have s: "s = ?ip @ ?r" by simp
  show "\<exists>ip fp. list_all isDigit ip \<and> list_all isDigit fp
          \<and> (s = ip \<or> s = ip @ CHR ''.'' # fp)"
  proof (cases ?r)
    case Nil
    with s have "s = ?ip" by simp
    moreover have "list_all isDigit []" by simp
    ultimately show ?thesis using ip by blast
  next
    case (Cons c cs)
    have nd: "\<not> isDigit c"
      using Cons by (metis hd_dropWhile list.distinct(1) list.sel(1))
    with a Cons have c: "c = CHR ''.''" and "dropWhile isDigit cs = []"
      by (auto simp: amountPattern_def split: if_splits)
    then have "list_all isDigit cs" by (auto simp: list_all_iff)
    moreover from s Cons c have "s = ?ip @ CHR ''.'' # cs" by simp
    ultimately show ?thesis using ip by blast
  qed
next
  assume "\<exists>ip fp. list_all isDigit ip \<and> list_all isDigit fp
            \<and> (s = ip \<or> s = ip @ CHR ''.'' # fp)"
  then obtain ip fp where ip: "list_all isDigit ip" and fp: "list_all isDigit fp"
    and s: "s = ip \<or> s = ip @ CHR ''.'' # fp" by blast
  from s show "amountPattern s"
  proof
    assume "s = ip"
    with ip show ?thesis by (simp add: amountPattern_def dropWhile_digits)
  next
    assume "s = ip @ CHR ''.'' # fp"
    with ip fp dot_not_digit show ?thesis
      by (simp add: amountPattern_def dropWhile_append3 list_all_iff dropWhile_digits)
  qed
qed

lemma parseFloat_digits:
  assumes "amountPattern s"
  shows "parseFloat s \<noteq> None \<longleftrightarrow> list_ex isDigit s"
proof -
  from assms obtain ip fp where ip: "list_all isDigit ip" and fp: "list_all isDigit fp"
    and s: "s = ip \<or> s = ip @ CHR ''.'' # fp"
    unfolding amountPattern_shape by blast
  from s show ?thesis
  proof
    assume "s = ip"
    with ip show ?thesis
      by (cases ip)
         (auto simp: parseFloat_def takeWhile_digits dropWhile_digits list_ex_iff list_all_iff)
  next
    assume e: "s = ip @ CHR ''.'' # fp"
    have t: "takeWhile isDigit s = ip" and d: "dropWhile isDigit s = CHR ''.'' # fp"
      using ip dot_not_digit
      by (simp_all add: e takeWhile_append2 dropWhile_append3 list_all_iff)
    have "parseFloat s \<noteq> None \<longleftrightarrow> ip \<noteq> [] \<or> fp \<noteq> []"
      using fp by (simp add: parseFloat_def t d takeWhile_digits)
    also have "\<dots> \<longleftrightarrow> list_ex isDigit s"
      using ip fp dot_not_digit
      by (cases ip; cases fp) (auto simp: e list_ex_iff list_all_iff)
    finally show ?thesis .
  qed
qed

lemma stringField_Inr: "stringField ev f m = Inr s \<Longrightarrow> map_of ev f = Some (Str s)"
  by (simp add: stringField_def split: option.splits jsvalue.splits)

lemma fieldTypes_fields:
  assumes "fieldTypes ev = Inr e"
  shows "map_of ev ''tokenAddress'' = Some (Str (event_tokenAddress e))"
    and "map_of ev ''to'' = Some (Str (event_to e))"
    and "map_of ev ''from'' = Some (Str (event_from e))"
    and "map_of ev ''amount'' = Some (Str (event_amount e))"
    and "map_of ev ''hash'' = Some (Str (event_hash e))"
    and "map_of ev ''timestamp'' = Some (Str (event_timestamp e))"
  using assms unfolding fieldTypes_def
  by (auto split: sum.splits dest!: stringField_Inr)

lemma fieldTypes_none_missing:
  assumes "fieldTypes ev = Inr e"
  shows "filter (\<lambda>field. map_of ev field = None) requiredFields = []"
  using fieldTypes_fields [OF assms] by (simp add: requiredFields_def)

lemma keyCoherent_handleWebhook:
  "keyCoherent st \<Longrightarrow>
     keyCoherent (snd (handleWebhook toLowerCase dateGetTime cfg payload st))"
  by (auto simp: handleWebhook_def Let_def keyCoherent_upsert
      split: sum.splits if_splits option.splits)

section \<open>Lemmas: the controller\<close>

text \<open>An authenticated request: the answer is decided by the service.\<close>

lemma controller_authentic:
  assumes "x_alchemy_signature req = Header sig" and "sig \<noteq> []" and "rawBody req = Some raw"
    and "verifyAlchemySignature hmac (toStringUtf8 raw) sig (alchemyWebhookSigningKey cfg)
           = Inr True"
  shows "webhookController_handleWebhook hmac cfg service req st =
           (case service (body req) st of
              (Some e, st') \<Rightarrow> (Response 500 ''Internal server error'', st')
            | (None, st') \<Rightarrow> (Response 200 ''Webhook processed successfully'', st'))"
  using assms by (simp add: webhookController_handleWebhook_def)

text \<open>
  A request that does not authenticate, whatever the reason and the answer (401 or 500):
  the service has no part in the result and the store is returned as it was.
\<close>

lemma controller_frame:
  assumes "\<forall>sig raw. x_alchemy_signature req = Header sig \<longrightarrow> rawBody req = Some raw \<longrightarrow>
             verifyAlchemySignature hmac (toStringUtf8 raw) sig (alchemyWebhookSigningKey cfg)
               \<noteq> Inr True"
  shows "\<exists>response. \<forall>service.
           webhookController_handleWebhook hmac cfg service req st = (response, st)"
proof (cases "x_alchemy_signature req")
  case NoHeader
  then show ?thesis by (simp add: webhookController_handleWebhook_def)
next
  case (Header sig)
  show ?thesis
  proof (cases "sig = []")
    case True
    with Header show ?thesis by (simp add: webhookController_handleWebhook_def)
  next
    case False
    show ?thesis
    proof (cases "rawBody req")
      case None
      with Header False show ?thesis by (simp add: webhookController_handleWebhook_def)
    next
      case (Some raw)
      show ?thesis
      proof (cases "verifyAlchemySignature hmac (toStringUtf8 raw) sig
                      (alchemyWebhookSigningKey cfg)")
        case (Inl e)
        with Header False Some show ?thesis
          by (simp add: webhookController_handleWebhook_def)
      next
        case (Inr isValid)
        with assms Header Some have "\<not> isValid" by auto
        with Inr Header False Some show ?thesis
          by (simp add: webhookController_handleWebhook_def)
      qed
    qed
  qed
next
  case (Headers hs)
  then show ?thesis by (simp add: webhookController_handleWebhook_def)
qed

lemma keyCoherent_controller:
  assumes "keyCoherent st"
    and "\<And>b s. keyCoherent s \<Longrightarrow> keyCoherent (snd (service b s))"
  shows "keyCoherent (snd (webhookController_handleWebhook hmac cfg service req st))"
proof -
  have "keyCoherent (snd (service (body req) st))"
    using assms by simp
  then show ?thesis
    using assms(1)
    by (auto simp: webhookController_handleWebhook_def
        split: header.splits option.splits sum.splits prod.splits)
qed

section \<open>Lemmas: the concrete inputs evaluated\<close>

lemma example_authentic:
  "verifyAlchemySignature exampleMac (toStringUtf8 ''{}'') ''77687365637b7d''
     (alchemyWebhookSigningKey exampleConfig) = Inr True"
  by (simp add: verifyAlchemySignature_def exampleMac_def exampleConfig_def toHex_def
      hexDigit_def)

lemma example_not_authentic:
  "verifyAlchemySignature exampleMac (toStringUtf8 ''{}'') ''00''
     (alchemyWebhookSigningKey exampleConfig) = Inr False"
  by (simp add: verifyAlchemySignature_def exampleMac_def exampleConfig_def toHex_def
      hexDigit_def)

lemma example_monitored:
  "isMonitoredAddress asciiLowerCase exampleConfig exampleAddress"
  "\<not> isMonitoredAddress asciiLowerCase exampleConfig exampleSender"
  "\<not> isMonitoredAddress asciiLowerCase exampleConfig exampleMint"
  by (simp_all add: isMonitoredAddress_def exampleConfig_def exampleAddress_def
      exampleSender_def exampleMint_def asciiLowerCase_def asciiLowerChar_def)

lemma process_validItem:
  "processTransaction asciiLowerCase exampleConfig now (JsonObject validItem) st
     = Inr (upsert st (validRecord\<lparr>timestamp := now\<rparr>))"
  by (simp add: processTransaction_def validItem_def exampleMessage_def exampleMeta_def
      validRecord_def LAMPORTS_PER_SOL_def example_monitored)

lemma process_outgoingItem:
  "processTransaction asciiLowerCase exampleConfig now (JsonObject outgoingItem) st = Inr st"
  by (simp add: processTransaction_def outgoingItem_def exampleMessage_def
      LAMPORTS_PER_SOL_def example_monitored)

lemma process_unrelatedItem:
  "processTransaction asciiLowerCase exampleConfig now (JsonObject unrelatedItem) st = Inr st"
  by (simp add: processTransaction_def unrelatedItem_def example_monitored)

lemma process_noInstructionsItem:
  "processTransaction asciiLowerCase exampleConfig now (JsonObject noInstructionsItem) st
     = Inl TypeError"
  by (simp add: processTransaction_def noInstructionsItem_def exampleMessage_def
      exampleMeta_def LAMPORTS_PER_SOL_def example_monitored)


lemma process_noAccountsItem:
  "processTransaction asciiLowerCase exampleConfig now (JsonObject noAccountsItem) st
     = Inr (upsert st \<lparr>amount = 1 / 2, tokenAddress = ''SOL'', from_addr = None,
              to_addr = exampleAddress, timestamp = now, transactionHash = ''sig3''\<rparr>)"
  by (simp add: processTransaction_def noAccountsItem_def exampleMessage_def exampleMeta_def
      LAMPORTS_PER_SOL_def example_monitored)


lemma example_addresses:
  "addressPattern exampleMint" "addressPattern exampleAddress" "addressPattern exampleSender"
  by (simp_all add: addressPattern_def isBase58_def exampleMint_def exampleAddress_def
      exampleSender_def)

lemma fieldTypes_tokenEvent: "fieldTypes (tokenEventFields amt) = Inr (exampleEvent amt)"
  by (simp add: fieldTypes_def stringField_def tokenEventFields_def exampleEvent_def)

lemma validate_tokenEvent:
  "validatePayload exampleDate (tokenEvent amt) =
     (if amountPattern amt then Inr (exampleEvent amt) else Inl (Error ''Invalid amount format''))"
  using example_addresses
  by (simp add: validatePayload_def tokenEvent_def fieldTypes_tokenEvent
      fieldTypes_none_missing [OF fieldTypes_tokenEvent])
     (simp add: exampleEvent_def exampleDate_def)

lemma handle_tokenEvent:
  "amountPattern amt \<Longrightarrow>
   handleWebhook asciiLowerCase exampleDate exampleConfig (tokenEvent amt) st =
     (case parseFloat amt of
        None \<Rightarrow> (Some (Error ''Failed to parse amount''), st)
      | Some v \<Rightarrow> (None, upsert st (legacyRecord\<lparr>amount := v\<rparr>)))"
  by (simp add: handleWebhook_def validate_tokenEvent)
     (simp add: exampleEvent_def exampleConfig_def exampleDate_def legacyRecord_def
        split: option.splits)

section \<open>C1: the signature check\<close>

text \<open>
  C1, as the code has it. The controller passes \<open>req.rawBody.toString('utf8')\<close>, so for a raw
  body \<open>b\<close>, a claimed signature \<open>s\<close> and a key: the check returns true exactly when \<open>s\<close> is
  the lowercase hexadecimal digest of the HMAC over the decoded body; that digest is
  accepted; a body that is well-formed UTF-8 is decoded to itself, so that there the
  digest is the one over \<open>b\<close> itself; an accepted signature consists of lowercase
  hexadecimal digits; any single-bit mutation of an accepted signature is rejected; and
  the digest of \<open>b\<close> is rejected for another body \<open>b'\<close> exactly when the HMAC tells the two
  decoded bodies apart.
\<close>

theorem verify_iff_digest:
  "verifyAlchemySignature hmac (toStringUtf8 b) s (Some key)
      = Inr (s = toHex (hmac key (toStringUtf8 b)))
   \<and> verifyAlchemySignature hmac (toStringUtf8 b)
        (toHex (hmac key (toStringUtf8 b))) (Some key) = Inr True
   \<and> (wellFormedUtf8 b \<longrightarrow>
        toStringUtf8 b = b
        \<and> verifyAlchemySignature hmac (toStringUtf8 b) s (Some key)
            = Inr (s = toHex (hmac key b)))
   \<and> (verifyAlchemySignature hmac (toStringUtf8 b) s (Some key) = Inr True
        \<longrightarrow> list_all isLowerHex s)
   \<and> (verifyAlchemySignature hmac (toStringUtf8 b) s (Some key) = Inr True
        \<and> i < length s \<and> j < 8 \<longrightarrow>
        verifyAlchemySignature hmac (toStringUtf8 b) (flipBit i j s) (Some key) = Inr False)
   \<and> (verifyAlchemySignature hmac (toStringUtf8 b')
         (toHex (hmac key (toStringUtf8 b))) (Some key) = Inr False
        \<longleftrightarrow> hmac key (toStringUtf8 b') \<noteq> hmac key (toStringUtf8 b))"
  using toHex_inj [of "hmac key (toStringUtf8 b)" "hmac key (toStringUtf8 b')"]
    flipBit_neq [of i s j] toHex_lower [of "hmac key (toStringUtf8 b)"]
  by (auto simp: verifyAlchemySignature_def toStringUtf8_wellFormed)

text \<open>
  The theorem at the body \<open>{}\<close> and the key \<open>whsec\<close>: the digest is accepted, the digest with
  its lowest bit flipped is rejected, and so is the digest for the body \<open>{ }\<close>.
\<close>

theorem verify_iff_digest_witness:
  "wellFormedUtf8 ''{}''
   \<and> toStringUtf8 ''{}'' = ''{}''
   \<and> verifyAlchemySignature exampleMac (toStringUtf8 ''{}'') ''77687365637b7d'' (Some ''whsec'')
       = Inr True
   \<and> list_all isLowerHex ''77687365637b7d''
   \<and> flipBit 0 0 ''77687365637b7d'' = ''67687365637b7d''
   \<and> verifyAlchemySignature exampleMac (toStringUtf8 ''{}'') (flipBit 0 0 ''77687365637b7d'')
        (Some ''whsec'') = Inr False
   \<and> verifyAlchemySignature exampleMac (toStringUtf8 ''{ }'') ''77687365637b7d'' (Some ''whsec'')
       = Inr False"
proof -
  have digest: "toHex (exampleMac ''whsec'' ''{}'') = ''77687365637b7d''"
    by (simp add: exampleMac_def toHex_def hexDigit_def)
  have flip: "flipBit 0 0 ''77687365637b7d'' = ''67687365637b7d''"
    by code_simp
  have other: "exampleMac ''whsec'' ''{ }'' \<noteq> exampleMac ''whsec'' ''{}''"
    by (simp add: exampleMac_def)
  show ?thesis
    using verify_iff_digest [where hmac = exampleMac and b = "''{}''" and key = "''whsec''"
        and s = "''77687365637b7d''" and i = 0 and j = 0 and b' = "''{ }''"]
      digest flip other
    by simp
qed

text \<open>
  C1 as stated fails. The raw bodies \<open>FF\<close> and \<open>FE\<close> (one byte each, not UTF-8) differ in
  one bit and are decoded to the same string, U+FFFD. Whatever the HMAC function and the
  key are, no signature is accepted for the first and rejected for the second; so the
  digest of \<open>b\<close> being accepted and every single-bit mutation of \<open>b\<close> being rejected cannot
  both hold at \<open>b\<close> = \<open>FF\<close>.
\<close>

theorem verify_single_bit_counterexample:
  "\<forall>hmac key s.
     \<not> (verifyAlchemySignature hmac (toStringUtf8 [CHR 0xFF]) s (Some key) = Inr True
        \<and> verifyAlchemySignature hmac (toStringUtf8 (flipBit 0 0 [CHR 0xFF])) s (Some key)
            = Inr False)"
proof -
  have "flipBit 0 0 [CHR 0xFF] = [CHR 0xFE]" by code_simp
  moreover have "toStringUtf8 [CHR 0xFF] = toStringUtf8 [CHR 0xFE]"
    by (simp add: leadByte_def)
  ultimately show ?thesis by simp
qed

section \<open>C2: extraction from an address-activity item\<close>

text \<open>
  C2. Take an item that carries a transaction detail, a message with its account keys, and
  metadata. If no account key is the monitored address, the store is left as it was. If
  \<open>i\<close> is the first position whose key is the monitored address (compared in lower case,
  as \<open>isMonitoredAddress\<close> does, whatever \<open>toLowerCase\<close> does to a string) and both balance
  lists reach \<open>i\<close>, let \<open>delta\<close> be
  \<open>(post_balances[i] - pre_balances[i]) / LAMPORTS_PER_SOL\<close>: for \<open>delta \<le> 0\<close> the store is
  left as it was; for \<open>delta > 0\<close>, with a first instruction whose first account index is
  \<open>k\<close>, the record stored under the item's signature has the amount \<open>delta\<close>, the token
  \<open>SOL\<close>, the sender \<open>accounts[k]\<close>, the recipient \<open>accounts[i]\<close>, which is the monitored
  address up to the case of its letters, and the signature as its transactionHash.
\<close>

theorem processTransaction_balance_delta:
  assumes "transaction tx = detail # details" and "message detail = msg # msgs"
    and "meta tx = mt # mts" and "account_keys msg = Some accs"
  shows "((\<forall>a\<in>set accs. \<not> isMonitoredAddress toLowerCase cfg a) \<longrightarrow>
            processTransaction toLowerCase cfg now (JsonObject tx) st = Inr st)
       \<and> (i < length accs \<and> isMonitoredAddress toLowerCase cfg (accs ! i)
            \<and> (\<forall>j<i. \<not> isMonitoredAddress toLowerCase cfg (accs ! j))
            \<and> i < length (pre_balances mt) \<and> i < length (post_balances mt) \<longrightarrow>
           (let delta = (post_balances mt ! i - pre_balances mt ! i) / LAMPORTS_PER_SOL
            in (delta \<le> 0 \<longrightarrow> processTransaction toLowerCase cfg now (JsonObject tx) st = Inr st)
             \<and> (delta > 0 \<and> instructions msg = Some (instruction # rest)
                  \<and> accounts instruction = k # ks \<longrightarrow>
                 processTransaction toLowerCase cfg now (JsonObject tx) st
                   = Inr (upsert st
                       \<lparr>amount = delta, tokenAddress = ''SOL'', from_addr = index accs k,
                        to_addr = accs ! i, timestamp = now, transactionHash = signature tx\<rparr>)
                 \<and> getTransferByHash
                       (upsert st
                         \<lparr>amount = delta, tokenAddress = ''SOL'', from_addr = index accs k,
                          to_addr = accs ! i, timestamp = now, transactionHash = signature tx\<rparr>)
                       (signature tx)
                     = Some \<lparr>amount = delta, tokenAddress = ''SOL'', from_addr = index accs k,
                          to_addr = accs ! i, timestamp = now, transactionHash = signature tx\<rparr>
                 \<and> toLowerCase (accs ! i) = toLowerCase (solanaAddress cfg))))"
proof (intro conjI impI)
  assume "\<forall>a\<in>set accs. \<not> isMonitoredAddress toLowerCase cfg a"
  then have "findIndex (isMonitoredAddress toLowerCase cfg) accs = None"
    by (simp add: findIndex_None)
  with assms show "processTransaction toLowerCase cfg now (JsonObject tx) st = Inr st"
    by (simp add: processTransaction_def)
next
  assume H: "i < length accs \<and> isMonitoredAddress toLowerCase cfg (accs ! i)
            \<and> (\<forall>j<i. \<not> isMonitoredAddress toLowerCase cfg (accs ! j))
            \<and> i < length (pre_balances mt) \<and> i < length (post_balances mt)"
  then have fi: "findIndex (isMonitoredAddress toLowerCase cfg) accs = Some i"
    by (intro findIndex_first) simp_all
  from H have pre: "index (pre_balances mt) i = Some (pre_balances mt ! i)"
    and post: "index (post_balances mt) i = Some (post_balances mt ! i)"
    by (simp_all add: index_nth)
  from H have low: "toLowerCase (accs ! i) = toLowerCase (solanaAddress cfg)"
    by (simp add: isMonitoredAddress_def)
  show "let delta = (post_balances mt ! i - pre_balances mt ! i) / LAMPORTS_PER_SOL
            in (delta \<le> 0 \<longrightarrow> processTransaction toLowerCase cfg now (JsonObject tx) st = Inr st)
             \<and> (delta > 0 \<and> instructions msg = Some (instruction # rest)
                  \<and> accounts instruction = k # ks \<longrightarrow>
                 processTransaction toLowerCase cfg now (JsonObject tx) st
                   = Inr (upsert st
                       \<lparr>amount = delta, tokenAddress = ''SOL'', from_addr = index accs k,
                        to_addr = accs ! i, timestamp = now, transactionHash = signature tx\<rparr>)
                 \<and> getTransferByHash
                       (upsert st
                         \<lparr>amount = delta, tokenAddress = ''SOL'', from_addr = index accs k,
                          to_addr = accs ! i, timestamp = now, transactionHash = signature tx\<rparr>)
                       (signature tx)
                     = Some \<lparr>amount = delta, tokenAddress = ''SOL'', from_addr = index accs k,
                          to_addr = accs ! i, timestamp = now, transactionHash = signature tx\<rparr>
                 \<and> toLowerCase (accs ! i) = toLowerCase (solanaAddress cfg))"
    using assms fi pre post low
    by (simp add: processTransaction_def Let_def getTransferByHash_def upsert_def)
qed

text \<open>
  The theorem at three items: scenario C of the spec (account 1, 1000000000 to 1500000000
  lamports: the amount is 0.5 and the sender is account 0), scenario D (the balance
  falls), and an item without the monitored address.
\<close>

theorem processTransaction_balance_delta_witness:
  "isMonitoredAddress asciiLowerCase exampleConfig ([exampleSender, exampleAddress] ! 1)
   \<and> \<not> isMonitoredAddress asciiLowerCase exampleConfig ([exampleSender, exampleAddress] ! 0)
   \<and> (0::real) < (1500000000 - 1000000000) / LAMPORTS_PER_SOL
   \<and> processTransaction asciiLowerCase exampleConfig 1001 (JsonObject validItem) new_transfers
       = Inr (upsert new_transfers validRecord)
   \<and> getTransferByHash (upsert new_transfers validRecord) ''sig2'' = Some validRecord
   \<and> amount validRecord = 1 / 2
   \<and> (1000000000 - 1500000000) / LAMPORTS_PER_SOL \<le> (0::real)
   \<and> processTransaction asciiLowerCase exampleConfig 1001 (JsonObject outgoingItem) new_transfers = Inr new_transfers
   \<and> processTransaction asciiLowerCase exampleConfig 1001 (JsonObject unrelatedItem) new_transfers = Inr new_transfers"
  using processTransaction_balance_delta
      [where tx = validItem and toLowerCase = asciiLowerCase and cfg = exampleConfig and now = 1001 and st = new_transfers
         and detail = "\<lparr>message = [exampleMessage [\<lparr>accounts = [0, 1]\<rparr>]]\<rparr>" and details = "[]"
         and msg = "exampleMessage [\<lparr>accounts = [0, 1]\<rparr>]" and msgs = "[]"
         and mt = exampleMeta and mts = "[]" and accs = "[exampleSender, exampleAddress]"
         and i = 1 and instruction = "\<lparr>accounts = [0, 1]\<rparr>" and rest = "[]" and k = 0
         and ks = "[1]"]
    processTransaction_balance_delta
      [where tx = outgoingItem and toLowerCase = asciiLowerCase and cfg = exampleConfig and now = 1001 and st = new_transfers
         and detail = "\<lparr>message = [exampleMessage [\<lparr>accounts = [1, 0]\<rparr>]]\<rparr>" and details = "[]"
         and msg = "exampleMessage [\<lparr>accounts = [1, 0]\<rparr>]" and msgs = "[]"
         and mt = "\<lparr>fee = 5000, pre_balances = [2000000000, 1500000000],
              post_balances = [2499995000, 1000000000]\<rparr>" and mts = "[]"
         and accs = "[exampleSender, exampleAddress]" and i = 1]
    processTransaction_balance_delta
      [where tx = unrelatedItem and toLowerCase = asciiLowerCase and cfg = exampleConfig and now = 1001 and st = new_transfers
         and detail = "\<lparr>message = [\<lparr>account_keys = Some [exampleSender, exampleMint],
                                   instructions = Some [\<lparr>accounts = [0, 1]\<rparr>]\<rparr>]\<rparr>"
         and details = "[]"
         and msg = "\<lparr>account_keys = Some [exampleSender, exampleMint],
                                   instructions = Some [\<lparr>accounts = [0, 1]\<rparr>]\<rparr>"
         and msgs = "[]" and mt = exampleMeta and mts = "[]"
         and accs = "[exampleSender, exampleMint]"]
    example_monitored
  by (simp add: validItem_def outgoingItem_def unrelatedItem_def exampleMessage_def
      exampleMeta_def validRecord_def LAMPORTS_PER_SOL_def getTransferByHash_def upsert_def)

section \<open>C3: a failing item of a batch\<close>




section \<open>C4: the store, last write wins\<close>

text \<open>
  C4. For records \<open>r1\<close>, \<open>r2\<close> with the same transactionHash and \<open>r1 \<noteq> r2\<close>, upserting \<open>r1\<close> and
  then \<open>r2\<close> makes the lookup of the hash return exactly \<open>r2\<close>: every field is the one of \<open>r2\<close>,
  nothing of \<open>r1\<close> is merged in. Upserting the same record twice leaves the same store as
  upserting it once.
\<close>

theorem upsert_last_write_wins:
  "(transactionHash r1 = transactionHash r2 \<and> r1 \<noteq> r2 \<longrightarrow>
      getTransferByHash (upsert (upsert st r1) r2) (transactionHash r1) = Some r2)
   \<and> upsert (upsert st r) r = upsert st r"
  by (simp add: upsert_def getTransferByHash_def)

theorem upsert_last_write_wins_witness:
  "transactionHash \<lparr>amount = 1, tokenAddress = ''SOL'', from_addr = Some ''a'', to_addr = ''b'',
        timestamp = 5, transactionHash = ''h''\<rparr>
     = transactionHash \<lparr>amount = 2, tokenAddress = ''USDC'', from_addr = None, to_addr = ''c'',
        timestamp = 7, transactionHash = ''h''\<rparr>
   \<and> \<lparr>amount = 1, tokenAddress = ''SOL'', from_addr = Some ''a'', to_addr = ''b'',
        timestamp = 5, transactionHash = ''h''\<rparr>
     \<noteq> \<lparr>amount = 2, tokenAddress = ''USDC'', from_addr = None, to_addr = ''c'',
        timestamp = 7, transactionHash = ''h''\<rparr>
   \<and> getTransferByHash
        (upsert (upsert new_transfers
           \<lparr>amount = 1, tokenAddress = ''SOL'', from_addr = Some ''a'', to_addr = ''b'',
             timestamp = 5, transactionHash = ''h''\<rparr>)
           \<lparr>amount = 2, tokenAddress = ''USDC'', from_addr = None, to_addr = ''c'',
             timestamp = 7, transactionHash = ''h''\<rparr>) ''h''
     = Some \<lparr>amount = 2, tokenAddress = ''USDC'', from_addr = None, to_addr = ''c'',
        timestamp = 7, transactionHash = ''h''\<rparr>"
  using upsert_last_write_wins
    [of "\<lparr>amount = 1, tokenAddress = ''SOL'', from_addr = Some ''a'', to_addr = ''b'',
          timestamp = 5, transactionHash = ''h''\<rparr>"
        "\<lparr>amount = 2, tokenAddress = ''USDC'', from_addr = None, to_addr = ''c'',
          timestamp = 7, transactionHash = ''h''\<rparr>"
        new_transfers]
  by simp

section \<open>C5: requests that do not authenticate\<close>

text \<open>
  C5. When the signature header is absent, empty or not a string, or when the check of
  the header against the raw body returns false, the controller answers 401 and returns
  the store it was given, whatever the service is: the service, and with it the parsing
  and the extraction, is not called.
\<close>

theorem unauthenticated_request_rejected:
  assumes "x_alchemy_signature req = NoHeader
         \<or> x_alchemy_signature req = Header []
         \<or> (\<exists>hs. x_alchemy_signature req = Headers hs)
         \<or> (\<exists>sig raw. x_alchemy_signature req = Header sig \<and> rawBody req = Some raw
              \<and> verifyAlchemySignature hmac (toStringUtf8 raw) sig
                   (alchemyWebhookSigningKey cfg) = Inr False)"
  shows "\<exists>reason. \<forall>service.
           webhookController_handleWebhook hmac cfg service req st
             = (Response 401 reason, st)"
proof (cases "x_alchemy_signature req")
  case NoHeader
  then show ?thesis by (simp add: webhookController_handleWebhook_def)
next
  case (Header sig)
  show ?thesis
  proof (cases "sig = []")
    case True
    with Header show ?thesis by (simp add: webhookController_handleWebhook_def)
  next
    case False
    with Header assms show ?thesis by (auto simp: webhookController_handleWebhook_def)
  qed
next
  case (Headers hs)
  then show ?thesis by (simp add: webhookController_handleWebhook_def)
qed

text \<open>
  Scenario E of the spec and its siblings, with the token event of scenario A as the body:
  without the header, with an array of headers and with a wrong signature the answer is
  401 and the store stays empty, while the same body with the right signature is stored.
\<close>

theorem unauthenticated_request_rejected_witness:
  "webhookController_handleWebhook exampleMac exampleConfig (handleWebhook asciiLowerCase exampleDate exampleConfig)
      \<lparr>x_alchemy_signature = NoHeader, rawBody = Some ''{}'', body = tokenEvent ''12.5''\<rparr>
      new_transfers
     = (Response 401 ''Missing signature'', new_transfers)
   \<and> webhookController_handleWebhook exampleMac exampleConfig (handleWebhook asciiLowerCase exampleDate exampleConfig)
      \<lparr>x_alchemy_signature = Headers [''77687365637b7d'', ''00''], rawBody = Some ''{}'',
        body = tokenEvent ''12.5''\<rparr> new_transfers
     = (Response 401 ''Missing signature'', new_transfers)
   \<and> verifyAlchemySignature exampleMac (toStringUtf8 ''{}'') ''00''
        (alchemyWebhookSigningKey exampleConfig) = Inr False
   \<and> webhookController_handleWebhook exampleMac exampleConfig (handleWebhook asciiLowerCase exampleDate exampleConfig)
      \<lparr>x_alchemy_signature = Header ''00'', rawBody = Some ''{}'', body = tokenEvent ''12.5''\<rparr>
      new_transfers
     = (Response 401 ''Invalid signature'', new_transfers)
   \<and> webhookController_handleWebhook exampleMac exampleConfig (handleWebhook asciiLowerCase exampleDate exampleConfig)
      (exampleRequest (tokenEvent ''12.5'')) new_transfers
     = (Response 200 ''Webhook processed successfully'', upsert new_transfers legacyRecord)"
proof -
  have p: "amountPattern ''12.5''"
    by (simp add: amountPattern_def isDigit_def)
  have "parseFloat ''12.5'' = Some (25 / 2)"
    by (simp add: parseFloat_def isDigit_def digitsValue_def)
  then have ok: "handleWebhook asciiLowerCase exampleDate exampleConfig (tokenEvent ''12.5'')
                   new_transfers
                   = (None, upsert new_transfers legacyRecord)"
    using p by (simp add: handle_tokenEvent legacyRecord_def)
  show ?thesis
    using unauthenticated_request_rejected
      [where req = "\<lparr>x_alchemy_signature = NoHeader, rawBody = Some ''{}'',
                       body = tokenEvent ''12.5''\<rparr>"
         and hmac = exampleMac and cfg = exampleConfig and st = new_transfers]
      unauthenticated_request_rejected
      [where req = "\<lparr>x_alchemy_signature = Headers [''77687365637b7d'', ''00''],
                       rawBody = Some ''{}'', body = tokenEvent ''12.5''\<rparr>"
         and hmac = exampleMac and cfg = exampleConfig and st = new_transfers]
      unauthenticated_request_rejected
      [where req = "\<lparr>x_alchemy_signature = Header ''00'', rawBody = Some ''{}'',
                       body = tokenEvent ''12.5''\<rparr>"
         and hmac = exampleMac and cfg = exampleConfig and st = new_transfers]
      example_not_authentic example_authentic ok
    by (simp add: webhookController_handleWebhook_def exampleRequest_def)
qed

section \<open>C6: an item whose first instruction names no account\<close>

text \<open>
  C6 holds of an empty instruction list and fails on the code for an empty account list.
  With a positive balance delta and a first instruction whose account list is empty,
  \<open>instructions[0].accounts[0]\<close> is \<open>undefined\<close>, \<open>accounts[undefined]\<close> is \<open>undefined\<close>, and
  nothing is thrown: the item is not skipped, a record without a sender is stored under
  its signature, both by \<open>processTransaction\<close> and in a batch, which returns normally. The
  item with the empty instruction list does throw and stores nothing.
\<close>

theorem processTransaction_empty_accounts_stored:
  "processTransaction asciiLowerCase exampleConfig (exampleClock 0) (JsonObject noAccountsItem)
       new_transfers
     = Inr (upsert new_transfers
         \<lparr>amount = 1 / 2, tokenAddress = ''SOL'', from_addr = None, to_addr = exampleAddress,
          timestamp = 1000, transactionHash = ''sig3''\<rparr>)
   \<and> fst (handleWebhook_activity asciiLowerCase exampleConfig exampleClock
             (activityPayload [JsonObject noAccountsItem]) new_transfers)
     = None
   \<and> getTransferByHash
        (snd (handleWebhook_activity asciiLowerCase exampleConfig exampleClock
                (activityPayload [JsonObject noAccountsItem]) new_transfers))
        ''sig3''
     = Some \<lparr>amount = 1 / 2, tokenAddress = ''SOL'', from_addr = None, to_addr = exampleAddress,
          timestamp = 1000, transactionHash = ''sig3''\<rparr>
   \<and> processTransaction asciiLowerCase exampleConfig (exampleClock 0)
        (JsonObject noInstructionsItem) new_transfers
     = Inl TypeError"
proof -
  have "validatePayload_activity (activityPayload [JsonObject noAccountsItem]) = Inr ()"
    by (simp add: validatePayload_activity_def activityPayload_def noAccountsItem_def
        exampleMessage_def)
  then show ?thesis
    by (simp add: handleWebhook_activity_def activityPayload_def process_noAccountsItem
        process_noInstructionsItem exampleClock_def getTransferByHash_def upsert_def)
qed

section \<open>C7: a processing error of the token-event service\<close>

text \<open>
  C7, as the code has it. Take a token event that passes \<open>validatePayload\<close>, in an
  authenticated request. The timestamp was parsed by the validation already and does
  not fail again. If the event names the configured token and the monitored recipient
  and its amount does not parse, the service throws \<open>Failed to parse amount\<close>: the inner and
  the outer \<open>catch\<close> block log the exception and throw it on, so that it aborts the
  notification, the controller answers 500 and the store is the one it was given.
  This is the only exception of the service after validation: whenever it throws, the
  three conditions hold, the exception is that one and the store is the one it was
  given; and in every other case it returns normally and the controller answers 200.
\<close>

theorem legacy_processing_error_aborts:
  assumes valid: "validatePayload dateGetTime payload = Inr e"
    and header: "x_alchemy_signature req = Header sig" "sig \<noteq> []"
    and raw: "rawBody req = Some raw"
    and authentic: "verifyAlchemySignature hmac (toStringUtf8 raw) sig
                      (alchemyWebhookSigningKey cfg) = Inr True"
    and body: "body req = payload"
  shows "dateGetTime (event_timestamp e) \<noteq> None
       \<and> (toLowerCase (event_tokenAddress e) = toLowerCase (usdcTokenAddress cfg)
          \<and> toLowerCase (event_to e) = toLowerCase (solanaAddress cfg)
          \<and> parseFloat (event_amount e) = None
          \<longrightarrow>
            handleWebhook toLowerCase dateGetTime cfg payload st
              = (Some (Error ''Failed to parse amount''), st)
          \<and> webhookController_handleWebhook hmac cfg
                (handleWebhook toLowerCase dateGetTime cfg) req st
              = (Response 500 ''Internal server error'', st))
       \<and> (\<forall>err st'. handleWebhook toLowerCase dateGetTime cfg payload st = (Some err, st')
          \<longrightarrow>
            err = Error ''Failed to parse amount'' \<and> st' = st
          \<and> toLowerCase (event_tokenAddress e) = toLowerCase (usdcTokenAddress cfg)
          \<and> toLowerCase (event_to e) = toLowerCase (solanaAddress cfg)
          \<and> parseFloat (event_amount e) = None)
       \<and> (\<not> (toLowerCase (event_tokenAddress e) = toLowerCase (usdcTokenAddress cfg)
             \<and> toLowerCase (event_to e) = toLowerCase (solanaAddress cfg)
             \<and> parseFloat (event_amount e) = None)
          \<longrightarrow>
            fst (handleWebhook toLowerCase dateGetTime cfg payload st) = None
          \<and> fst (webhookController_handleWebhook hmac cfg
                   (handleWebhook toLowerCase dateGetTime cfg) req st)
              = Response 200 ''Webhook processed successfully'')"
proof -
  let ?service = "handleWebhook toLowerCase dateGetTime cfg"
  let ?failing = "toLowerCase (event_tokenAddress e) = toLowerCase (usdcTokenAddress cfg)
          \<and> toLowerCase (event_to e) = toLowerCase (solanaAddress cfg)
          \<and> parseFloat (event_amount e) = None"
  have ts: "dateGetTime (event_timestamp e) \<noteq> None"
    using valid
    by (auto simp: validatePayload_def Let_def
        split: jsvalue.splits option.splits sum.splits if_splits)
  have controller:
    "webhookController_handleWebhook hmac cfg ?service req st
       = (case ?service payload st of
            (Some e, st') \<Rightarrow> (Response 500 ''Internal server error'', st')
          | (None, st') \<Rightarrow> (Response 200 ''Webhook processed successfully'', st'))"
    using controller_authentic [OF header raw authentic] body by simp
  have forward: "?service payload st = (Some (Error ''Failed to parse amount''), st)"
    if "?failing"
    using that valid by (simp add: handleWebhook_def)
  have backward: "err = Error ''Failed to parse amount'' \<and> st' = st \<and> ?failing"
    if "?service payload st = (Some err, st')" for err st'
    using that valid ts
    by (auto simp: handleWebhook_def Let_def split: if_splits option.splits)
  have otherwise: "fst (?service payload st) = None" if "\<not> ?failing"
  proof (cases "fst (?service payload st)")
    case None
    then show ?thesis by simp
  next
    case (Some err)
    then have "?service payload st = (Some err, snd (?service payload st))"
      by (simp add: prod_eq_iff)
    then have "?failing"
      using backward by blast
    with that show ?thesis by simp
  qed
  show ?thesis
  proof (intro conjI impI allI)
    show "dateGetTime (event_timestamp e) \<noteq> None"
      by (rule ts)
  next
    assume "?failing"
    then show "?service payload st = (Some (Error ''Failed to parse amount''), st)"
      by (rule forward)
  next
    assume "?failing"
    then show "webhookController_handleWebhook hmac cfg ?service req st
                 = (Response 500 ''Internal server error'', st)"
      using controller forward by simp
  next
    fix err st'
    assume "?service payload st = (Some err, st')"
    then have "err = Error ''Failed to parse amount'' \<and> st' = st \<and> ?failing"
      by (rule backward)
    then show "err = Error ''Failed to parse amount''" and "st' = st"
      and "toLowerCase (event_tokenAddress e) = toLowerCase (usdcTokenAddress cfg)"
      and "toLowerCase (event_to e) = toLowerCase (solanaAddress cfg)"
      and "parseFloat (event_amount e) = None"
      by simp_all
  next
    assume "\<not> ?failing"
    then show "fst (?service payload st) = None"
      by (rule otherwise)
  next
    assume "\<not> ?failing"
    then have "fst (?service payload st) = None"
      by (rule otherwise)
    then show "fst (webhookController_handleWebhook hmac cfg ?service req st)
                 = Response 200 ''Webhook processed successfully''"
      using controller by (cases "?service payload st") simp
  qed
qed

text \<open>
  The theorem at the token event of scenario A with the amount \<open>.\<close>, which the amount
  pattern accepts and \<open>parseFloat\<close> turns into \<open>NaN\<close>, and with the amount \<open>12.5\<close>, which
  parses: the first is answered with 500, the second with 200.
\<close>

theorem legacy_processing_error_aborts_witness:
  "validatePayload exampleDate (tokenEvent ''.'') = Inr (exampleEvent ''.'')
   \<and> exampleDate (event_timestamp (exampleEvent ''.'')) \<noteq> None
   \<and> asciiLowerCase (event_tokenAddress (exampleEvent ''.''))
       = asciiLowerCase (usdcTokenAddress exampleConfig)
   \<and> asciiLowerCase (event_to (exampleEvent ''.''))
       = asciiLowerCase (solanaAddress exampleConfig)
   \<and> parseFloat (event_amount (exampleEvent ''.'')) = None
   \<and> handleWebhook asciiLowerCase exampleDate exampleConfig (tokenEvent ''.'') new_transfers
       = (Some (Error ''Failed to parse amount''), new_transfers)
   \<and> webhookController_handleWebhook exampleMac exampleConfig
        (handleWebhook asciiLowerCase exampleDate exampleConfig)
        (exampleRequest (tokenEvent ''.'')) new_transfers
       = (Response 500 ''Internal server error'', new_transfers)
   \<and> validatePayload exampleDate (tokenEvent ''12.5'') = Inr (exampleEvent ''12.5'')
   \<and> parseFloat (event_amount (exampleEvent ''12.5'')) = Some (25 / 2)
   \<and> fst (handleWebhook asciiLowerCase exampleDate exampleConfig (tokenEvent ''12.5'')
            new_transfers)
       = None
   \<and> fst (webhookController_handleWebhook exampleMac exampleConfig
            (handleWebhook asciiLowerCase exampleDate exampleConfig)
            (exampleRequest (tokenEvent ''12.5'')) new_transfers)
       = Response 200 ''Webhook processed successfully''
   \<and> handleWebhook asciiLowerCase exampleDate exampleConfig (tokenEvent ''12.5'')
        new_transfers
       \<noteq> (Some (Error ''Failed to parse amount''), new_transfers)"
proof -
  have p: "amountPattern ''.''" "amountPattern ''12.5''"
    by (simp_all add: amountPattern_def isDigit_def)
  have v: "validatePayload exampleDate (tokenEvent ''.'') = Inr (exampleEvent ''.'')"
    and v': "validatePayload exampleDate (tokenEvent ''12.5'') = Inr (exampleEvent ''12.5'')"
    using p by (simp_all add: validate_tokenEvent)
  have token: "asciiLowerCase (event_tokenAddress (exampleEvent amt))
                 = asciiLowerCase (usdcTokenAddress exampleConfig)"
    and recipient: "asciiLowerCase (event_to (exampleEvent amt))
                 = asciiLowerCase (solanaAddress exampleConfig)" for amt
    by (simp_all add: exampleEvent_def exampleConfig_def)
  have n: "parseFloat (event_amount (exampleEvent ''.'')) = None"
    by (simp add: exampleEvent_def parseFloat_def isDigit_def)
  have m: "parseFloat (event_amount (exampleEvent ''12.5'')) = Some (25 / 2)"
    by (simp add: exampleEvent_def parseFloat_def isDigit_def digitsValue_def)
  have request: "x_alchemy_signature (exampleRequest b) = Header ''77687365637b7d''"
    "''77687365637b7d'' \<noteq> []" "rawBody (exampleRequest b) = Some ''{}''"
    "body (exampleRequest b) = b" for b :: jsvalue
    by (simp_all add: exampleRequest_def)
  have failing:
    "handleWebhook asciiLowerCase exampleDate exampleConfig (tokenEvent ''.'') new_transfers
       = (Some (Error ''Failed to parse amount''), new_transfers)
     \<and> webhookController_handleWebhook exampleMac exampleConfig
          (handleWebhook asciiLowerCase exampleDate exampleConfig)
          (exampleRequest (tokenEvent ''.'')) new_transfers
       = (Response 500 ''Internal server error'', new_transfers)"
    using legacy_processing_error_aborts
      [OF v request(1-3) example_authentic request(4),
       where toLowerCase = asciiLowerCase and st = new_transfers,
       THEN conjunct2, THEN conjunct1]
      token recipient n
    by blast
  have parsing:
    "fst (handleWebhook asciiLowerCase exampleDate exampleConfig (tokenEvent ''12.5'')
            new_transfers)
       = None
     \<and> fst (webhookController_handleWebhook exampleMac exampleConfig
            (handleWebhook asciiLowerCase exampleDate exampleConfig)
            (exampleRequest (tokenEvent ''12.5'')) new_transfers)
       = Response 200 ''Webhook processed successfully''"
    using legacy_processing_error_aborts
      [OF v' request(1-3) example_authentic request(4),
       where toLowerCase = asciiLowerCase and st = new_transfers,
       THEN conjunct2, THEN conjunct2, THEN conjunct2]
      m
    by simp
  have parsed: "exampleDate (event_timestamp (exampleEvent ''.'')) \<noteq> None"
    using legacy_processing_error_aborts
      [OF v request(1-3) example_authentic request(4),
       where toLowerCase = asciiLowerCase and st = new_transfers,
       THEN conjunct1] .
  have only:
    "handleWebhook asciiLowerCase exampleDate exampleConfig (tokenEvent ''12.5'')
        new_transfers
       \<noteq> (Some (Error ''Failed to parse amount''), new_transfers)"
    using legacy_processing_error_aborts
      [OF v' request(1-3) example_authentic request(4),
       where toLowerCase = asciiLowerCase and st = new_transfers,
       THEN conjunct2, THEN conjunct2, THEN conjunct1]
      m
    by auto
  from v v' token recipient n m failing parsing parsed only show ?thesis
    by blast
qed

text \<open>
  C7 as stated fails: the token event with the amount \<open>.\<close> authenticates and passes the
  validation, its amount does not parse, and the notification is not reported as a
  success but answered with 500.
\<close>

theorem legacy_processing_error_counterexample:
  "verifyAlchemySignature exampleMac (toStringUtf8 ''{}'') ''77687365637b7d''
      (alchemyWebhookSigningKey exampleConfig) = Inr True
   \<and> validatePayload exampleDate (tokenEvent ''.'') = Inr (exampleEvent ''.'')
   \<and> webhookController_handleWebhook exampleMac exampleConfig
        (handleWebhook asciiLowerCase exampleDate exampleConfig)
        (exampleRequest (tokenEvent ''.'')) new_transfers
       \<noteq> (Response 200 ''Webhook processed successfully'', new_transfers)
   \<and> fst (webhookController_handleWebhook exampleMac exampleConfig
        (handleWebhook asciiLowerCase exampleDate exampleConfig)
        (exampleRequest (tokenEvent ''.'')) new_transfers)
       = Response 500 ''Internal server error''"
proof -
  have p: "amountPattern ''.''"
    by (simp add: amountPattern_def isDigit_def)
  have n: "parseFloat ''.'' = None"
    by (simp add: parseFloat_def isDigit_def)
  have h: "handleWebhook asciiLowerCase exampleDate exampleConfig (tokenEvent ''.'')
             new_transfers
             = (Some (Error ''Failed to parse amount''), new_transfers)"
    using p n by (simp add: handle_tokenEvent)
  have "webhookController_handleWebhook exampleMac exampleConfig
        (handleWebhook asciiLowerCase exampleDate exampleConfig)
        (exampleRequest (tokenEvent ''.'')) new_transfers
       = (Response 500 ''Internal server error'', new_transfers)"
    using example_authentic h
    by (simp add: webhookController_handleWebhook_def exampleRequest_def)
  then show ?thesis
    using p example_authentic by (simp add: validate_tokenEvent)
qed

section \<open>C8: the format of the amount\<close>

text \<open>
  C8, as the code has it. Take a payload whose event has the six fields as strings and
  three well-formed addresses. The string in the field \<open>amount\<close> is the amount of the
  event; the validation fails with \<open>Invalid amount format\<close> exactly when that string is not
  made of digits with at most one decimal point; when the timestamp parses too, the
  validation succeeds exactly when it is so made; and it is a plain decimal numeral (it
  has a digit as well) exactly when it has that format and \<open>parseFloat\<close> yields a number
  for it.
\<close>

theorem amount_validation:
  assumes "map_of props ''event'' = Some (Obj ev)"
    and "fieldTypes ev = Inr e"
    and "addressPattern (event_tokenAddress e)"
    and "addressPattern (event_to e)"
    and "addressPattern (event_from e)"
  shows "map_of ev ''amount'' = Some (Str (event_amount e))
       \<and> (validatePayload dateGetTime (Obj props) = Inl (Error ''Invalid amount format'')
            \<longleftrightarrow> \<not> amountFormat (event_amount e))
       \<and> (dateGetTime (event_timestamp e) \<noteq> None \<longrightarrow>
            validatePayload dateGetTime (Obj props)
              = (if amountFormat (event_amount e) then Inr e
                 else Inl (Error ''Invalid amount format'')))
       \<and> (plainDecimalNumeral (event_amount e)
            \<longleftrightarrow> amountFormat (event_amount e) \<and> parseFloat (event_amount e) \<noteq> None)"
proof -
  have "plainDecimalNumeral (event_amount e)
          \<longleftrightarrow> amountFormat (event_amount e) \<and> parseFloat (event_amount e) \<noteq> None"
    using parseFloat_digits [of "event_amount e"]
    by (auto simp: plainDecimalNumeral_def amountPattern_amountFormat)
  then show ?thesis
    using assms fieldTypes_fields(4) [OF assms(2)] fieldTypes_none_missing [OF assms(2)]
    by (simp add: validatePayload_def amountPattern_amountFormat)
qed

text \<open>
  The theorem at the token event of scenario A with the amounts \<open>12.5\<close>, which is accepted,
  and \<open>1.2.5\<close> and \<open>-1\<close>, which are not.
\<close>

theorem amount_validation_witness:
  "amountFormat ''12.5'' \<and> plainDecimalNumeral ''12.5'' \<and> parseFloat ''12.5'' = Some (25 / 2)
   \<and> validatePayload exampleDate (tokenEvent ''12.5'') = Inr (exampleEvent ''12.5'')
   \<and> \<not> amountFormat ''1.2.5''
   \<and> validatePayload exampleDate (tokenEvent ''1.2.5'') = Inl (Error ''Invalid amount format'')
   \<and> \<not> amountFormat ''-1''
   \<and> validatePayload exampleDate (tokenEvent ''-1'') = Inl (Error ''Invalid amount format'')"
proof -
  have d: "exampleDate (event_timestamp (exampleEvent amt)) \<noteq> None" for amt
    by (simp add: exampleEvent_def exampleDate_def)
  have a: "addressPattern (event_tokenAddress (exampleEvent amt))"
    "addressPattern (event_to (exampleEvent amt))"
    "addressPattern (event_from (exampleEvent amt))" for amt
    using example_addresses by (simp_all add: exampleEvent_def)
  have m: "map_of [(''event'', Obj (tokenEventFields amt))] ''event''
             = Some (Obj (tokenEventFields amt))" for amt
    by simp
  have p: "amountFormat ''12.5''" "\<not> amountFormat ''1.2.5''" "\<not> amountFormat ''-1''"
    by (simp_all add: amountFormat_def isDigit_def)
  have f: "parseFloat ''12.5'' = Some (25 / 2)"
    by (simp add: parseFloat_def isDigit_def digitsValue_def)
  show ?thesis
    using amount_validation [OF m fieldTypes_tokenEvent a, of "''12.5''" exampleDate] d [of "''12.5''"]
      amount_validation [OF m fieldTypes_tokenEvent a, of "''1.2.5''" exampleDate] d [of "''1.2.5''"]
      amount_validation [OF m fieldTypes_tokenEvent a, of "''-1''" exampleDate] d [of "''-1''"]
      p f
    by (simp add: tokenEvent_def exampleEvent_def)
qed

text \<open>
  C8 as stated fails: the empty string and the lone point have no digit and are no
  numerals (\<open>parseFloat\<close> yields \<open>NaN\<close> for them), and the validation accepts both.
\<close>

theorem amount_validation_counterexample:
  "\<not> plainDecimalNumeral [] \<and> parseFloat [] = None
   \<and> validatePayload exampleDate (tokenEvent []) = Inr (exampleEvent [])
   \<and> \<not> plainDecimalNumeral ''.'' \<and> parseFloat ''.'' = None
   \<and> validatePayload exampleDate (tokenEvent ''.'') = Inr (exampleEvent ''.'')"
proof -
  have "amountPattern []" "amountPattern ''.''"
    by (simp_all add: amountPattern_def isDigit_def)
  then show ?thesis
    by (simp add: validate_tokenEvent plainDecimalNumeral_def parseFloat_def isDigit_def)
qed

section \<open>C9: exceptions of the signature check\<close>

text \<open>
  C9, as the code has it. With a signing key that is present, \<open>verifyAlchemySignature\<close>
  throws nothing and returns whether the signature is the digest. The variant with the
  \<open>try\<close> block throws nothing for any key, present or absent, and returns false when the
  key is absent.
\<close>

theorem verify_never_throws_with_key:
  "verifyAlchemySignature hmac text sig (Some key) = Inr (sig = toHex (hmac key text))
   \<and> (\<exists>isValid. verifyAlchemySignature_try hmac text sig signingKey = Inr isValid)
   \<and> verifyAlchemySignature_try hmac text sig None = Inr False"
  by (cases signingKey) (auto simp: verifyAlchemySignature_def verifyAlchemySignature_try_def)

text \<open>
  C9 as stated fails for the function of src/utils/signatureVerification.ts, which has no
  \<open>try\<close> block: without a signing key (the environment variable is not set) it throws the
  \<open>TypeError\<close> of \<open>crypto.createHmac\<close> instead of returning false, whatever HMAC is.
\<close>

theorem verify_throws_without_key_counterexample:
  "\<forall>hmac. verifyAlchemySignature hmac ''{}'' ''77687365637b7d'' None = Inl TypeError"
  by (simp add: verifyAlchemySignature_def)

section \<open>C10: every record is stored under its own hash\<close>

text \<open>
  C10. If every record of the store is found under its own transactionHash, then the same
  holds of the store after the token-event service, after \<open>processTransaction\<close>, after the
  address-activity service, whether they return or throw, and after a request to the
  controller with either service; and it holds of the empty store the constructor
  creates.
\<close>

theorem key_record_coherence:
  assumes "keyCoherent st"
  shows "keyCoherent (snd (handleWebhook toLowerCase dateGetTime cfg payload st))
       \<and> (\<forall>st'. processTransaction toLowerCase cfg now item st = Inr st' \<longrightarrow> keyCoherent st')
       \<and> keyCoherent (snd (handleWebhook_activity toLowerCase cfg clock activity st))
       \<and> keyCoherent (snd (webhookController_handleWebhook hmac cfg
                              (handleWebhook toLowerCase dateGetTime cfg) req st))
       \<and> keyCoherent (snd (webhookController_handleWebhook hmac cfg
                              (handleWebhook_activity toLowerCase cfg clock) req' st))
       \<and> keyCoherent new_transfers"
proof -
  have "keyCoherent new_transfers"
    by (simp add: keyCoherent_def new_transfers_def getTransferByHash_def)
  then show ?thesis
    using assms keyCoherent_handleWebhook [OF assms, of toLowerCase dateGetTime cfg payload]
      keyCoherent_handleWebhook_activity [OF assms, of toLowerCase cfg clock activity]
      keyCoherent_processTransaction [OF assms, of toLowerCase cfg now item]
      keyCoherent_controller
        [OF assms, of "handleWebhook toLowerCase dateGetTime cfg" hmac cfg req]
      keyCoherent_controller
        [OF assms, of "handleWebhook_activity toLowerCase cfg clock" hmac cfg req']
      keyCoherent_handleWebhook [of _ toLowerCase dateGetTime cfg]
      keyCoherent_handleWebhook_activity [of _ toLowerCase cfg clock]
    by blast
qed

text \<open>
  The theorem from the empty store: after the batch of scenario F the store holds the
  record of item 2 under \<open>sig2\<close>, and is coherent; after the token event of scenario A as
  well.
\<close>

theorem key_record_coherence_witness:
  "keyCoherent new_transfers
   \<and> snd (webhookController_handleWebhook exampleMac exampleConfig
            (handleWebhook_activity asciiLowerCase exampleConfig exampleClock)
            (exampleRequest (activityPayload [JsonObject noInstructionsItem, JsonObject validItem]))
            new_transfers)
       = upsert new_transfers validRecord
   \<and> getTransferByHash (upsert new_transfers validRecord) ''sig2'' = Some validRecord
   \<and> keyCoherent (upsert new_transfers validRecord)
   \<and> keyCoherent (snd (webhookController_handleWebhook exampleMac exampleConfig
            (handleWebhook asciiLowerCase exampleDate exampleConfig)
            (exampleRequest (tokenEvent ''12.5'')) new_transfers))"
proof -
  have e: "keyCoherent new_transfers"
    by (simp add: keyCoherent_def new_transfers_def getTransferByHash_def)
  have v: "validatePayload_activity
             (activityPayload [JsonObject noInstructionsItem, JsonObject validItem]) = Inr ()"
    by (simp add: validatePayload_activity_def activityPayload_def noInstructionsItem_def
        exampleMessage_def)
  have h: "handleWebhook_activity asciiLowerCase exampleConfig exampleClock
             (activityPayload [JsonObject noInstructionsItem, JsonObject validItem])
             new_transfers
           = (None, upsert new_transfers validRecord)"
    using v
    by (simp add: handleWebhook_activity_def activityPayload_def process_noInstructionsItem
        process_validItem exampleClock_def validRecord_def)
  have c: "snd (webhookController_handleWebhook exampleMac exampleConfig
            (handleWebhook_activity asciiLowerCase exampleConfig exampleClock)
            (exampleRequest (activityPayload [JsonObject noInstructionsItem, JsonObject validItem]))
            new_transfers)
       = upsert new_transfers validRecord"
    using example_authentic h
    by (simp add: webhookController_handleWebhook_def exampleRequest_def)
  show ?thesis
    using key_record_coherence
      [OF e, where toLowerCase = asciiLowerCase and cfg = exampleConfig
         and clock = exampleClock and hmac = exampleMac
         and dateGetTime = exampleDate and req = "exampleRequest (tokenEvent ''12.5'')"
         and req' = "exampleRequest
                       (activityPayload [JsonObject noInstructionsItem, JsonObject validItem])"]
      e c
    by (simp add: validRecord_def getTransferByHash_def upsert_def)
qed

end
